theory Spec2Isabelle
  imports Complex_Main
begin

section \<open>String similarity matcher\<close>

text \<open>
  A JavaScript string is the list of its code units: \<^const>\<open>length\<close> is the \<^verbatim>\<open>.length\<close> of
  the source and \<open>s ! i\<close> is \<^verbatim>\<open>s[i]\<close> for an index in range. The matcher compares code
  units for equality only, so it is modelled for lists over any type of code units; the
  handlers use it at \<^typ>\<open>string\<close>.
\<close>

subsection \<open>\<^verbatim>\<open>compareDistance\<close> (server.js, lines 655 to 671)\<close>

text \<open>
  The body of the inner \<^verbatim>\<open>for (let j = 0; j < s2.length; j++)\<close> loop: it reads
  \<^verbatim>\<open>previousRow[j + 1]\<close>, \<^verbatim>\<open>currentRow[j]\<close> and \<^verbatim>\<open>previousRow[j]\<close> and pushes the
  minimum of the three candidates onto \<^verbatim>\<open>currentRow\<close>.
\<close>

definition currentRow_push :: "'a list \<Rightarrow> 'a list \<Rightarrow> nat list \<Rightarrow> nat \<Rightarrow> nat \<Rightarrow> nat list \<Rightarrow> nat list" where
  "currentRow_push s1 s2 previousRow i j currentRow =
     (let insertions = previousRow ! (j + 1) + 1;
          deletions = currentRow ! j + 1;
          substitutions = previousRow ! j + (if s1 ! i \<noteq> s2 ! j then 1 else 0)
      in currentRow @ [min insertions (min deletions substitutions)])"

text \<open>
  One pass of the outer loop: \<^verbatim>\<open>currentRow = [i + 1]\<close>, the inner loop over \<open>j\<close>, and the
  row that \<^verbatim>\<open>previousRow = currentRow\<close> installs.
\<close>

definition nextRow :: "'a list \<Rightarrow> 'a list \<Rightarrow> nat \<Rightarrow> nat list \<Rightarrow> nat list" where
  "nextRow s1 s2 i previousRow =
     fold (currentRow_push s1 s2 previousRow i) [0..<length s2] [i + 1]"

function compareDistance :: "'a list \<Rightarrow> 'a list \<Rightarrow> nat" where
  "compareDistance s1 s2 =
     (if length s1 < length s2 then compareDistance s2 s1
      else if length s2 = 0 then length s1
      else fold (nextRow s1 s2) [0..<length s1] [0..<length s2 + 1] ! length s2)"
  by pat_completeness auto
termination
  by (relation "measure (\<lambda>(s1, s2). if length s1 < length s2 then 1 else 0)") auto

declare compareDistance.simps [simp del]

subsection \<open>The edit distance of the specification\<close>

text \<open>
  One single-character edit: an insertion, a deletion or a substitution, at the head of
  the string or (rule \<open>skip\<close>) further in.
\<close>

inductive edit1 :: "'a list \<Rightarrow> 'a list \<Rightarrow> bool" where
  ins: "edit1 s (c # s)"
| del: "edit1 (c # s) s"
| sub: "c \<noteq> d \<Longrightarrow> edit1 (c # s) (d # s)"
| skip: "edit1 s t \<Longrightarrow> edit1 (c # s) (c # t)"

text \<open>
  \<open>edit_distance a b\<close> is the minimum number of single-character edits that transform
  \<open>a\<close> into \<open>b\<close>.
\<close>

definition edit_distance :: "'a list \<Rightarrow> 'a list \<Rightarrow> nat" where
  "edit_distance a b = (LEAST n. (edit1 ^^ n) a b)"

text \<open>The textbook recursion, used to connect the two.\<close>

fun lev :: "'a list \<Rightarrow> 'a list \<Rightarrow> nat" where
  "lev [] t = length t"
| "lev (c # s) [] = Suc (length s)"
| "lev (c # s) (d # t) =
     min (lev s (d # t) + 1) (min (lev (c # s) t + 1) (lev s t + (if c \<noteq> d then 1 else 0)))"

text \<open>The same recursion over prefixes, by index: the table the two loops fill.\<close>

fun levp :: "'a list \<Rightarrow> 'a list \<Rightarrow> nat \<Rightarrow> nat \<Rightarrow> nat" where
  "levp s1 s2 0 j = j"
| "levp s1 s2 (Suc i) 0 = Suc i"
| "levp s1 s2 (Suc i) (Suc j) =
     min (levp s1 s2 i (Suc j) + 1)
       (min (levp s1 s2 (Suc i) j + 1) (levp s1 s2 i j + (if s1 ! i \<noteq> s2 ! j then 1 else 0)))"

section \<open>JavaScript values, strings and the random source\<close>

subsection \<open>Values and responses\<close>

text \<open>
  The values the handlers read from a remote payload and pass to \<^verbatim>\<open>res.json\<close>. An object
  is the list of its own properties in insertion order. A number is a real: the counts
  the handlers compute are integers, and the rounding of doubles is not modelled.
\<close>

datatype jsval =
    JUndefined
  | JNull
  | JBool bool
  | JNum real
  | JStr string
  | JArr "jsval list"
  | JObj "(string \<times> jsval) list"

text \<open>
  What a handler sends: \<^verbatim>\<open>res.json(v)\<close> answers with status 200,
  \<^verbatim>\<open>res.status(500).json(v)\<close> with status 500. The body is the value handed to
  \<^verbatim>\<open>res.json\<close>.
\<close>

record response =
  status :: nat
  body :: jsval

definition res_json :: "jsval \<Rightarrow> response" where
  "res_json v = \<lparr>status = 200, body = v\<rparr>"

definition res_status_json :: "nat \<Rightarrow> jsval \<Rightarrow> response" where
  "res_status_json n v = \<lparr>status = n, body = v\<rparr>"

text \<open>
  What a \<^verbatim>\<open>catch\<close> clause can receive. \<open>AxiosError st\<close> is the rejection of an axios
  call: \<open>st\<close> is \<^verbatim>\<open>error.response.status\<close>, or \<open>None\<close> when the error has no
  \<^verbatim>\<open>response\<close> (no connection, timeout). The other errors have no \<^verbatim>\<open>response\<close>
  property either.
\<close>

datatype js_error =
    AxiosError "nat option"
  | ReferenceError string
  | TypeError
  | RangeError

text \<open>The test \<^verbatim>\<open>error.response && error.response.status === 404\<close> of the catch clauses.\<close>

fun is404 :: "js_error \<Rightarrow> bool" where
  "is404 (AxiosError (Some st)) = (st = 404)"
| "is404 _ = False"

text \<open>
  Reading the property \<open>k\<close> of an object: \<open>v.k\<close> is \<^verbatim>\<open>undefined\<close> when the object has no
  such property. The second equation covers strings, numbers, booleans and arrays, for
  the property names the handlers read (none of them is a built-in property of these).
\<close>

fun get :: "jsval \<Rightarrow> string \<Rightarrow> jsval" where
  "get (JObj kvs) k = (case map_of kvs k of Some v \<Rightarrow> v | None \<Rightarrow> JUndefined)"
| "get _ k = JUndefined"

text \<open>The same read where the source may read from \<^verbatim>\<open>null\<close> or \<^verbatim>\<open>undefined\<close>, which throws.\<close>

fun read_prop :: "jsval \<Rightarrow> string \<Rightarrow> js_error + jsval" where
  "read_prop JUndefined k = Inl TypeError"
| "read_prop JNull k = Inl TypeError"
| "read_prop v k = Inr (get v k)"

text \<open>Truthiness, for \<^verbatim>\<open>&&\<close>, \<^verbatim>\<open>||\<close> and \<^verbatim>\<open>?:\<close>.\<close>

fun truthy :: "jsval \<Rightarrow> bool" where
  "truthy JUndefined = False"
| "truthy JNull = False"
| "truthy (JBool b) = b"
| "truthy (JNum x) = (x \<noteq> 0)"
| "truthy (JStr s) = (s \<noteq> [])"
| "truthy (JArr _) = True"
| "truthy (JObj _) = True"

definition js_or :: "jsval \<Rightarrow> jsval \<Rightarrow> jsval" where
  "js_or a b = (if truthy a then a else b)"

text \<open>Writing a property: an existing key keeps its place, a new key goes last.\<close>

fun set_prop :: "(string \<times> jsval) list \<Rightarrow> string \<times> jsval \<Rightarrow> (string \<times> jsval) list" where
  "set_prop [] kv = [kv]"
| "set_prop ((k', v') # kvs) kv =
     (if k' = fst kv then (k', snd kv) # kvs else (k', v') # set_prop kvs kv)"

text \<open>
  An object literal \<^verbatim>\<open>{ ...before, ...o, ...after }\<close>: the properties are written from
  left to right. Spreading a value that is no object with own properties adds nothing.
\<close>

fun own_props :: "jsval \<Rightarrow> (string \<times> jsval) list" where
  "own_props (JObj kvs) = kvs"
| "own_props _ = []"

definition object_literal :: "(string \<times> jsval) list \<Rightarrow> jsval" where
  "object_literal kvs = JObj (fold (\<lambda>kv acc. set_prop acc kv) kvs [])"

subsection \<open>Strings\<close>

text \<open>
  A \<^typ>\<open>char\<close> stands for one code unit from U+0000 to U+00FF, so a \<^typ>\<open>string\<close> is a
  JavaScript string over these code units. The character classes and the case mappings
  below are those of JavaScript on this range.
\<close>

definition isDigit :: "char \<Rightarrow> bool" where
  "isDigit c = (c \<in> set ''0123456789'')"

text \<open>
  The class \<^verbatim>\<open>\s\<close>, which is also what \<^verbatim>\<open>trim\<close> removes: tab, line feed, vertical tab,
  form feed, carriage return, space and the no-break space U+00A0.
\<close>

definition isSpace :: "char \<Rightarrow> bool" where
  "isSpace c =
     (c \<in> set [CHR 0x09, CHR 0x0A, CHR 0x0B, CHR 0x0C, CHR 0x0D, CHR 0x20, CHR 0xA0])"

text \<open>
  The letters with two cases: A to Z, and U+00C0 to U+00DE without the multiplication
  sign U+00D7; their lower-case forms are 32 code units further, a to z and U+00E0 to
  U+00FE without the division sign U+00F7.
\<close>

definition upperLetters :: string where
  "upperLetters =
     ''ABCDEFGHIJKLMNOPQRSTUVWXYZ''
     @ [CHR 0xC0, CHR 0xC1, CHR 0xC2, CHR 0xC3, CHR 0xC4, CHR 0xC5, CHR 0xC6, CHR 0xC7, CHR 0xC8, CHR 0xC9, CHR 0xCA, CHR 0xCB,
        CHR 0xCC, CHR 0xCD, CHR 0xCE, CHR 0xCF, CHR 0xD0, CHR 0xD1, CHR 0xD2, CHR 0xD3, CHR 0xD4, CHR 0xD5, CHR 0xD6,
        CHR 0xD8, CHR 0xD9, CHR 0xDA, CHR 0xDB, CHR 0xDC, CHR 0xDD, CHR 0xDE]"

definition lowerLetters :: string where
  "lowerLetters =
     ''abcdefghijklmnopqrstuvwxyz''
     @ [CHR 0xE0, CHR 0xE1, CHR 0xE2, CHR 0xE3, CHR 0xE4, CHR 0xE5, CHR 0xE6, CHR 0xE7, CHR 0xE8, CHR 0xE9, CHR 0xEA, CHR 0xEB,
        CHR 0xEC, CHR 0xED, CHR 0xEE, CHR 0xEF, CHR 0xF0, CHR 0xF1, CHR 0xF2, CHR 0xF3, CHR 0xF4, CHR 0xF5, CHR 0xF6,
        CHR 0xF8, CHR 0xF9, CHR 0xFA, CHR 0xFB, CHR 0xFC, CHR 0xFD, CHR 0xFE]"

definition lowerChar :: "char \<Rightarrow> char" where
  "lowerChar c = (case map_of (zip upperLetters lowerLetters) c of Some d \<Rightarrow> d | None \<Rightarrow> c)"

definition toLowerCase :: "string \<Rightarrow> string" where
  "toLowerCase s = map lowerChar s"

text \<open>
  \<^verbatim>\<open>toUpperCase\<close> turns the sharp s U+00DF into two letters. The upper-case forms of
  U+00FF and of the micro sign U+00B5 lie above U+00FF, where no \<^typ>\<open>char\<close> stands for
  them: these two are left as they are. Only the display name that \<open>capitalize\<close> builds
  reads \<open>toUpperCase\<close>.
\<close>

definition upperChar :: "char \<Rightarrow> string" where
  "upperChar c =
     (if c = CHR 0xDF then ''SS''
      else case map_of (zip lowerLetters upperLetters) c of Some d \<Rightarrow> [d] | None \<Rightarrow> [c])"

definition toUpperCase :: "string \<Rightarrow> string" where
  "toUpperCase s = concat (map upperChar s)"

text \<open>\<^verbatim>\<open>s.includes(t)\<close>: \<open>t\<close> occurs in \<open>s\<close> as a contiguous substring.\<close>

fun str_includes :: "string \<Rightarrow> string \<Rightarrow> bool" where
  "str_includes [] t = (t = [])"
| "str_includes (c # s) t = (take (length t) (c # s) = t \<or> str_includes s t)"

text \<open>\<^verbatim>\<open>s.replace(t, '')\<close> with a string pattern: the first occurrence of \<open>t\<close> is removed.\<close>

fun remove_first :: "string \<Rightarrow> string \<Rightarrow> string" where
  "remove_first [] t = []"
| "remove_first (c # s) t =
     (if take (length t) (c # s) = t then drop (length t) (c # s) else c # remove_first s t)"

text \<open>\<^verbatim>\<open>s.trim()\<close>.\<close>

definition trim :: "string \<Rightarrow> string" where
  "trim s = rev (dropWhile isSpace (rev (dropWhile isSpace s)))"

text \<open>
  \<^verbatim>\<open>s.split(sep)\<close> for a separator that matches exactly one character: the pieces
  between the separators, empty pieces included; the empty string gives one empty piece.
\<close>

fun split_on :: "(char \<Rightarrow> bool) \<Rightarrow> string \<Rightarrow> string list" where
  "split_on sep [] = [[]]"
| "split_on sep (c # s) =
     (if sep c then [] # split_on sep s
      else (case split_on sep s of [] \<Rightarrow> [[c]] | w # ws \<Rightarrow> (c # w) # ws))"

text \<open>\<^verbatim>\<open>words.join(' ')\<close>.\<close>

fun join_space :: "string list \<Rightarrow> string" where
  "join_space [] = []"
| "join_space [w] = w"
| "join_space (w # ws) = w @ '' '' @ join_space ws"

text \<open>\<^verbatim>\<open>username.match(/\d{3,}/)\<close> is not null: three digits in a row somewhere.\<close>

fun has3digits :: "string \<Rightarrow> bool" where
  "has3digits (a # b # c # s) = ((isDigit a \<and> isDigit b \<and> isDigit c) \<or> has3digits (b # c # s))"
| "has3digits _ = False"

text \<open>Decimal digits of a non-negative integer, as template literals and \<^verbatim>\<open>toString\<close> print it.\<close>

definition digit_char :: "nat \<Rightarrow> char" where
  "digit_char d = ''0123456789'' ! d"

fun toString :: "nat \<Rightarrow> string" where
  "toString n = (if n < 10 then [digit_char n] else toString (n div 10) @ [digit_char (n mod 10)])"

declare toString.simps [simp del]

text \<open>\<^verbatim>\<open>s.padStart(2, '0')\<close>.\<close>

definition padStart2 :: "string \<Rightarrow> string" where
  "padStart2 s = replicate (2 - length s) CHR ''0'' @ s"

text \<open>
  \<^verbatim>\<open>parseInt\<close> on a string of decimal digits: the value of the digits. It is the result
  of the source for values below \<open>2 ^ 53\<close>; beyond, the source rounds to a double.
\<close>

definition digit_value :: "char \<Rightarrow> nat" where
  "digit_value c = (case map_of (zip ''0123456789'' [0..<10]) c of Some d \<Rightarrow> d | None \<Rightarrow> 0)"

definition parseInt_digits :: "string \<Rightarrow> nat" where
  "parseInt_digits s = foldl (\<lambda>n c. 10 * n + digit_value c) 0 s"

subsection \<open>The random source\<close>

text \<open>
  \<^verbatim>\<open>Math.random()\<close> returns a number that is at least 0 and less than 1. The random
  source is the sequence of values that the successive calls return; a call takes the
  first value and leaves the rest.
\<close>

typedef unit01 = "{r :: real. 0 \<le> r \<and> r < 1}"
  by (rule exI[of _ 0]) simp

setup_lifting type_definition_unit01

lift_definition zero01 :: unit01 is "0" by simp

lift_definition half01 :: unit01 is "1 / 2" by simp

lift_definition high01 :: unit01 is "9 / 10" by simp

type_synonym rng = "nat \<Rightarrow> unit01"

definition Math_random :: "rng \<Rightarrow> real \<times> rng" where
  "Math_random g = (Rep_unit01 (g 0), \<lambda>n. g (Suc n))"

text \<open>\<^verbatim>\<open>Math.floor(Math.random() * n)\<close>.\<close>

definition random_below :: "nat \<Rightarrow> rng \<Rightarrow> nat \<times> rng" where
  "random_below n g = (case Math_random g of (r, g') \<Rightarrow> (nat \<lfloor>r * real n\<rfloor>, g'))"

text \<open>\<^verbatim>\<open>xs[Math.floor(Math.random() * xs.length)]\<close>.\<close>

definition random_pick :: "'a list \<Rightarrow> rng \<Rightarrow> 'a \<times> rng" where
  "random_pick xs g = (case random_below (length xs) g of (i, g') \<Rightarrow> (xs ! i, g'))"

text \<open>The index that \<^verbatim>\<open>Math.floor(Math.random() * n)\<close> returns is below \<open>n\<close>.\<close>

lemma random_below_less: "0 < n \<Longrightarrow> fst (random_below n g) < n"
proof -
  assume n: "0 < n"
  have r: "0 \<le> Rep_unit01 (g 0)" "Rep_unit01 (g 0) < 1"
    using Rep_unit01[of "g 0"] by simp_all
  then have "Rep_unit01 (g 0) * real n < real n"
    using n by simp
  then have "\<lfloor>Rep_unit01 (g 0) * real n\<rfloor> < int n"
    by (simp add: floor_less_iff)
  then show ?thesis
    using n by (simp add: random_below_def Math_random_def)
qed

section \<open>The Spotify endpoint (server.js, lines 414 to 868)\<close>

subsection \<open>The curated data set \<^verbatim>\<open>knownProfiles\<close>\<close>

text \<open>
  One definition per entry of the object literal, in the order of the source. The one
  character of the literals above U+00FF, U+8F49 in an album title of the entry
  \<^verbatim>\<open>bts\<close>, is written as the three bytes of its UTF-8 encoding.
\<close>

definition known_drake :: jsval where
  "known_drake =
     JObj [
       (''name'', JStr ''Drake''),
       (''followers'', JNum 67438211),
       (''popularity'', JNum 96),
       (''monthly_listeners'', JNum 63829401),
       (''image_url'', JStr ''https://i.scdn.co/image/ab6761610000e5eb4293385d324db8558179afd9''),
       (''type'', JStr ''artist''),
       (''genres'', JArr [JStr ''canadian hip hop'', JStr ''canadian pop'', JStr ''hip hop'', JStr ''pop rap'', JStr ''rap'']),
       (''top_tracks'', JArr [
         JObj [
           (''name'', JStr ''One Dance''),
           (''popularity'', JNum 98),
           (''album'', JStr ''Views''),
           (''release_date'', JStr ''2016-04-29''),
           (''duration_ms'', JNum 173987)],
         JObj [
           (''name'', JStr ''God's Plan''),
           (''popularity'', JNum 96),
           (''album'', JStr ''Scorpion''),
           (''release_date'', JStr ''2018-06-29''),
           (''duration_ms'', JNum 198973)],
         JObj [
           (''name'', JStr ''Hotline Bling''),
           (''popularity'', JNum 95),
           (''album'', JStr ''Views''),
           (''release_date'', JStr ''2016-04-29''),
           (''duration_ms'', JNum 267266)],
         JObj [
           (''name'', JStr ''In My Feelings''),
           (''popularity'', JNum 94),
           (''album'', JStr ''Scorpion''),
           (''release_date'', JStr ''2018-06-29''),
           (''duration_ms'', JNum 217925)],
         JObj [
           (''name'', JStr ''Nice For What''),
           (''popularity'', JNum 93),
           (''album'', JStr ''Scorpion''),
           (''release_date'', JStr ''2018-06-29''),
           (''duration_ms'', JNum 210853)]]),
       (''albums'', JArr [
         JObj [
           (''name'', JStr ''Certified Lover Boy''),
           (''release_date'', JStr ''2021-09-03''),
           (''total_tracks'', JNum 21),
           (''image_url'', JStr ''https://i.scdn.co/image/ab67616d0000b2739416ed64daf84936d89e671c'')],
         JObj [
           (''name'', JStr ''Scorpion''),
           (''release_date'', JStr ''2018-06-29''),
           (''total_tracks'', JNum 25),
           (''image_url'', JStr ''https://i.scdn.co/image/ab67616d0000b273f907de96b9a4fbc04accc0d5'')],
         JObj [
           (''name'', JStr ''Views''),
           (''release_date'', JStr ''2016-04-29''),
           (''total_tracks'', JNum 20),
           (''image_url'', JStr ''https://i.scdn.co/image/ab67616d0000b273b20cfc2872b8ad0515b1b191'')]])]"

definition known_adele :: jsval where
  "known_adele =
     JObj [
       (''name'', JStr ''Adele''),
       (''followers'', JNum 49523685),
       (''popularity'', JNum 94),
       (''monthly_listeners'', JNum 55841263),
       (''image_url'', JStr ''https://i.scdn.co/image/ab6761610000e5eb68f6e5892075d7f22615bd17''),
       (''type'', JStr ''artist''),
       (''genres'', JArr [JStr ''british soul'', JStr ''pop'', JStr ''pop soul'', JStr ''uk pop'']),
       (''top_tracks'', JArr [
         JObj [(''name'', JStr ''Hello''), (''popularity'', JNum 98), (''album'', JStr ''25''), (''release_date'', JStr ''2015-11-20''), (''duration_ms'', JNum 295493)],
         JObj [
           (''name'', JStr ''Rolling in the Deep''),
           (''popularity'', JNum 97),
           (''album'', JStr ''21''),
           (''release_date'', JStr ''2011-01-24''),
           (''duration_ms'', JNum 228280)],
         JObj [
           (''name'', JStr ''Someone Like You''),
           (''popularity'', JNum 96),
           (''album'', JStr ''21''),
           (''release_date'', JStr ''2011-01-24''),
           (''duration_ms'', JNum 285240)],
         JObj [(''name'', JStr ''Easy On Me''), (''popularity'', JNum 95), (''album'', JStr ''30''), (''release_date'', JStr ''2021-11-19''), (''duration_ms'', JNum 224856)],
         JObj [
           (''name'', JStr ''Set Fire to the Rain''),
           (''popularity'', JNum 94),
           (''album'', JStr ''21''),
           (''release_date'', JStr ''2011-01-24''),
           (''duration_ms'', JNum 223773)]]),
       (''albums'', JArr [
         JObj [
           (''name'', JStr ''30''),
           (''release_date'', JStr ''2021-11-19''),
           (''total_tracks'', JNum 12),
           (''image_url'', JStr ''https://i.scdn.co/image/ab67616d0000b273c6b577e4c4a6d126d5753a7b'')],
         JObj [
           (''name'', JStr ''25''),
           (''release_date'', JStr ''2015-11-20''),
           (''total_tracks'', JNum 11),
           (''image_url'', JStr ''https://i.scdn.co/image/ab67616d0000b2736a6387ab37f64034cdc7b367'')],
         JObj [
           (''name'', JStr ''21''),
           (''release_date'', JStr ''2011-01-24''),
           (''total_tracks'', JNum 11),
           (''image_url'', JStr ''https://i.scdn.co/image/ab67616d0000b2732118bf9b198b05a95ded6300'')]])]"

definition known_justinbieber :: jsval where
  "known_justinbieber =
     JObj [
       (''name'', JStr ''Justin Bieber''),
       (''followers'', JNum 42895631),
       (''popularity'', JNum 93),
       (''monthly_listeners'', JNum 71452369),
       (''image_url'', JStr ''https://i.scdn.co/image/ab6761610000e5eb8ae7f2aaa9817a704a87ea36''),
       (''type'', JStr ''artist''),
       (''genres'', JArr [JStr ''canadian pop'', JStr ''dance pop'', JStr ''pop'', JStr ''post-teen pop'']),
       (''top_tracks'', JArr [
         JObj [(''name'', JStr ''Sorry''), (''popularity'', JNum 96), (''album'', JStr ''Purpose''), (''release_date'', JStr ''2015-11-13''), (''duration_ms'', JNum 200787)],
         JObj [
           (''name'', JStr ''Love Yourself''),
           (''popularity'', JNum 95),
           (''album'', JStr ''Purpose''),
           (''release_date'', JStr ''2015-11-13''),
           (''duration_ms'', JNum 233720)],
         JObj [
           (''name'', JStr ''What Do You Mean?''),
           (''popularity'', JNum 94),
           (''album'', JStr ''Purpose''),
           (''release_date'', JStr ''2015-11-13''),
           (''duration_ms'', JNum 205240)],
         JObj [(''name'', JStr ''Stay''), (''popularity'', JNum 93), (''album'', JStr ''Justice''), (''release_date'', JStr ''2021-03-19''), (''duration_ms'', JNum 141806)],
         JObj [
           (''name'', JStr ''Peaches''),
           (''popularity'', JNum 92),
           (''album'', JStr ''Justice''),
           (''release_date'', JStr ''2021-03-19''),
           (''duration_ms'', JNum 198082)]]),
       (''albums'', JArr [
         JObj [
           (''name'', JStr ''Justice''),
           (''release_date'', JStr ''2021-03-19''),
           (''total_tracks'', JNum 16),
           (''image_url'', JStr ''https://i.scdn.co/image/ab67616d0000b273e6f407c7f3a0ec98845e4431'')],
         JObj [
           (''name'', JStr ''Changes''),
           (''release_date'', JStr ''2020-02-14''),
           (''total_tracks'', JNum 17),
           (''image_url'', JStr ''https://i.scdn.co/image/ab67616d0000b273849472121f6cd237cf546af4'')],
         JObj [
           (''name'', JStr ''Purpose''),
           (''release_date'', JStr ''2015-11-13''),
           (''total_tracks'', JNum 18),
           (''image_url'', JStr ''https://i.scdn.co/image/ab67616d0000b273f46542b2146bc13068d11a12'')]])]"

definition known_spotifycharts :: jsval where
  "known_spotifycharts =
     JObj [
       (''name'', JStr ''Spotify Charts''),
       (''followers'', JNum 5432167),
       (''popularity'', JNum 90),
       (''type'', JStr ''account''),
       (''verified'', JBool True),
       (''image_url'', JStr ''https://charts-images.scdn.co/assets/locale_en/regional/daily/region_global_default.jpg''),
       (''playlists'', JArr [
         JObj [
           (''name'', JStr ''Today's Top Hits''),
           (''followers'', JNum 33421567),
           (''total_tracks'', JNum 50),
           (''image_url'', JStr ''https://i.scdn.co/image/ab67706c0000da842fecd7a8f9434cceade0a313'')],
         JObj [
           (''name'', JStr ''Global Top 50''),
           (''followers'', JNum 28743291),
           (''total_tracks'', JNum 50),
           (''image_url'', JStr ''https://charts-images.scdn.co/assets/locale_en/regional/daily/region_global_default.jpg'')],
         JObj [
           (''name'', JStr ''Viral 50 - Global''),
           (''followers'', JNum 12453789),
           (''total_tracks'', JNum 50),
           (''image_url'', JStr ''https://charts-images.scdn.co/assets/locale_en/viral/daily/region_global_default.jpg'')]])]"

definition known_spotifymaps :: jsval where
  "known_spotifymaps =
     JObj [
       (''name'', JStr ''Spotify Maps''),
       (''followers'', JNum 3214576),
       (''popularity'', JNum 82),
       (''type'', JStr ''account''),
       (''verified'', JBool True),
       (''image_url'', JStr ''https://mosaic.scdn.co/640/ab67616d0000b2731dacfbc31cc873d132958af9ab67616d0000b273838fa502b0d9e6c2cd838fbcab67616d0000b273d58e353826fe4e468533789fab67616d0000b273ef74b53ad3e57f2ab40a4cae''),
       (''playlists'', JArr [
         JObj [
           (''name'', JStr ''Sound of New York City''),
           (''followers'', JNum 2187653),
           (''total_tracks'', JNum 100),
           (''image_url'', JStr ''https://i.scdn.co/image/ab67706c0000da84c4af81235e799ccfbe011e1a'')],
         JObj [
           (''name'', JStr ''Sound of London''),
           (''followers'', JNum 1853421),
           (''total_tracks'', JNum 100),
           (''image_url'', JStr ''https://i.scdn.co/image/ab67706c0000da844fed56bdb3e2e88e134f990a'')],
         JObj [
           (''name'', JStr ''Sound of Tokyo''),
           (''followers'', JNum 1765289),
           (''total_tracks'', JNum 100),
           (''image_url'', JStr ''https://i.scdn.co/image/ab67706c0000da841bbd99c7c7de409ba22e3936'')]])]"

definition known_weeknd :: jsval where
  "known_weeknd =
     JObj [
       (''name'', JStr ''The Weeknd''),
       (''followers'', JNum 47561234),
       (''popularity'', JNum 96),
       (''monthly_listeners'', JNum 76123456),
       (''image_url'', JStr ''https://i.scdn.co/image/ab6761610000e5eb214f3cf1cbe7139c1e26ffbb''),
       (''type'', JStr ''artist''),
       (''genres'', JArr [JStr ''canadian contemporary r&b'', JStr ''canadian pop'', JStr ''pop'', JStr ''r&b'']),
       (''top_tracks'', JArr [
         JObj [
           (''name'', JStr ''Blinding Lights''),
           (''popularity'', JNum 99),
           (''album'', JStr ''After Hours''),
           (''release_date'', JStr ''2020-03-20''),
           (''duration_ms'', JNum 200040)],
         JObj [
           (''name'', JStr ''Starboy''),
           (''popularity'', JNum 97),
           (''album'', JStr ''Starboy''),
           (''release_date'', JStr ''2016-11-25''),
           (''duration_ms'', JNum 230453)],
         JObj [
           (''name'', JStr ''Save Your Tears''),
           (''popularity'', JNum 96),
           (''album'', JStr ''After Hours''),
           (''release_date'', JStr ''2020-03-20''),
           (''duration_ms'', JNum 215947)],
         JObj [
           (''name'', JStr ''The Hills''),
           (''popularity'', JNum 95),
           (''album'', JStr ''Beauty Behind the Madness''),
           (''release_date'', JStr ''2015-08-28''),
           (''duration_ms'', JNum 242253)],
         JObj [
           (''name'', JStr ''Earned It''),
           (''popularity'', JNum 94),
           (''album'', JStr ''Beauty Behind the Madness''),
           (''release_date'', JStr ''2015-08-28''),
           (''duration_ms'', JNum 277680)]]),
       (''albums'', JArr [
         JObj [
           (''name'', JStr ''Dawn FM''),
           (''release_date'', JStr ''2022-01-07''),
           (''total_tracks'', JNum 16),
           (''image_url'', JStr ''https://i.scdn.co/image/ab67616d0000b273c6af5ffa661a365b72cf542d'')],
         JObj [
           (''name'', JStr ''After Hours''),
           (''release_date'', JStr ''2020-03-20''),
           (''total_tracks'', JNum 14),
           (''image_url'', JStr ''https://i.scdn.co/image/ab67616d0000b2738863bc11d2aa12b54f5aeb36'')],
         JObj [
           (''name'', JStr ''Starboy''),
           (''release_date'', JStr ''2016-11-25''),
           (''total_tracks'', JNum 18),
           (''image_url'', JStr ''https://i.scdn.co/image/ab67616d0000b273a048415db06a5b6fa7ec4e1a'')]])]"

definition known_theweeknd :: jsval where
  "known_theweeknd =
     JObj [
       (''name'', JStr ''The Weeknd''),
       (''followers'', JNum 47561234),
       (''popularity'', JNum 96),
       (''monthly_listeners'', JNum 76123456),
       (''image_url'', JStr ''https://i.scdn.co/image/ab6761610000e5eb214f3cf1cbe7139c1e26ffbb''),
       (''type'', JStr ''artist''),
       (''genres'', JArr [JStr ''canadian contemporary r&b'', JStr ''canadian pop'', JStr ''pop'', JStr ''r&b'']),
       (''top_tracks'', JArr [
         JObj [
           (''name'', JStr ''Blinding Lights''),
           (''popularity'', JNum 99),
           (''album'', JStr ''After Hours''),
           (''release_date'', JStr ''2020-03-20''),
           (''duration_ms'', JNum 200040)],
         JObj [
           (''name'', JStr ''Starboy''),
           (''popularity'', JNum 97),
           (''album'', JStr ''Starboy''),
           (''release_date'', JStr ''2016-11-25''),
           (''duration_ms'', JNum 230453)],
         JObj [
           (''name'', JStr ''Save Your Tears''),
           (''popularity'', JNum 96),
           (''album'', JStr ''After Hours''),
           (''release_date'', JStr ''2020-03-20''),
           (''duration_ms'', JNum 215947)],
         JObj [
           (''name'', JStr ''The Hills''),
           (''popularity'', JNum 95),
           (''album'', JStr ''Beauty Behind the Madness''),
           (''release_date'', JStr ''2015-08-28''),
           (''duration_ms'', JNum 242253)],
         JObj [
           (''name'', JStr ''Earned It''),
           (''popularity'', JNum 94),
           (''album'', JStr ''Beauty Behind the Madness''),
           (''release_date'', JStr ''2015-08-28''),
           (''duration_ms'', JNum 277680)]]),
       (''albums'', JArr [
         JObj [
           (''name'', JStr ''Dawn FM''),
           (''release_date'', JStr ''2022-01-07''),
           (''total_tracks'', JNum 16),
           (''image_url'', JStr ''https://i.scdn.co/image/ab67616d0000b273c6af5ffa661a365b72cf542d'')],
         JObj [
           (''name'', JStr ''After Hours''),
           (''release_date'', JStr ''2020-03-20''),
           (''total_tracks'', JNum 14),
           (''image_url'', JStr ''https://i.scdn.co/image/ab67616d0000b2738863bc11d2aa12b54f5aeb36'')],
         JObj [
           (''name'', JStr ''Starboy''),
           (''release_date'', JStr ''2016-11-25''),
           (''total_tracks'', JNum 18),
           (''image_url'', JStr ''https://i.scdn.co/image/ab67616d0000b273a048415db06a5b6fa7ec4e1a'')]])]"

definition known_beyonce :: jsval where
  "known_beyonce =
     JObj [
       (''name'', JStr (''Beyonc'' @ [CHR 0xE9])),
       (''followers'', JNum 38421953),
       (''popularity'', JNum 95),
       (''monthly_listeners'', JNum 58976231),
       (''image_url'', JStr ''https://i.scdn.co/image/ab6761610000e5eb12e3f20d05a8d6cfde988715''),
       (''type'', JStr ''artist''),
       (''genres'', JArr [JStr ''dance pop'', JStr ''pop'', JStr ''r&b'']),
       (''top_tracks'', JArr [
         JObj [
           (''name'', JStr ''Halo''),
           (''popularity'', JNum 94),
           (''album'', JStr ''I AM...SASHA FIERCE''),
           (''release_date'', JStr ''2008-11-14''),
           (''duration_ms'', JNum 261640)],
         JObj [
           (''name'', JStr ''Single Ladies (Put a Ring on It)''),
           (''popularity'', JNum 93),
           (''album'', JStr ''I AM...SASHA FIERCE''),
           (''release_date'', JStr ''2008-11-14''),
           (''duration_ms'', JNum 193093)],
         JObj [
           (''name'', JStr ''Crazy in Love''),
           (''popularity'', JNum 92),
           (''album'', JStr ''Dangerously In Love''),
           (''release_date'', JStr ''2003-06-24''),
           (''duration_ms'', JNum 236133)],
         JObj [
           (''name'', JStr ''Formation''),
           (''popularity'', JNum 91),
           (''album'', JStr ''Lemonade''),
           (''release_date'', JStr ''2016-04-23''),
           (''duration_ms'', JNum 225773)],
         JObj [
           (''name'', JStr ''Run the World (Girls)''),
           (''popularity'', JNum 90),
           (''album'', JStr ''4''),
           (''release_date'', JStr ''2011-06-24''),
           (''duration_ms'', JNum 235947)]]),
       (''albums'', JArr [
         JObj [
           (''name'', JStr ''RENAISSANCE''),
           (''release_date'', JStr ''2022-07-29''),
           (''total_tracks'', JNum 16),
           (''image_url'', JStr ''https://i.scdn.co/image/ab67616d0000b273441d5b57653d4f10530cea3c'')],
         JObj [
           (''name'', JStr ''Lemonade''),
           (''release_date'', JStr ''2016-04-23''),
           (''total_tracks'', JNum 12),
           (''image_url'', JStr ''https://i.scdn.co/image/ab67616d0000b273e44963b8bb127552ac451d5e'')],
         JObj [
           (''name'', JStr (''BEYONC'' @ [CHR 0xC9])),
           (''release_date'', JStr ''2013-12-13''),
           (''total_tracks'', JNum 14),
           (''image_url'', JStr ''https://i.scdn.co/image/ab67616d0000b2736a6387ab37f64034cdc7b367'')]])]"

definition known_badpaddy :: jsval where
  "known_badpaddy =
     JObj [
       (''name'', JStr ''Bad Paddy''),
       (''followers'', JNum 47218),
       (''popularity'', JNum 58),
       (''monthly_listeners'', JNum 93770),
       (''image_url'', JStr ''https://i.scdn.co/image/ab67616d0000b273b8abc4de41be8b6b60521234''),
       (''type'', JStr ''artist''),
       (''genres'', JArr [JStr ''irish indie'', JStr ''irish rock'', JStr ''modern alternative rock'']),
       (''top_tracks'', JArr [
         JObj [(''name'', JStr ''Durt''), (''popularity'', JNum 67), (''album'', JStr ''Durt''), (''release_date'', JStr ''2018-06-15''), (''duration_ms'', JNum 194853)],
         JObj [
           (''name'', JStr ''Sink or Swim''),
           (''popularity'', JNum 65),
           (''album'', JStr ''Sink or Swim''),
           (''release_date'', JStr ''2019-05-31''),
           (''duration_ms'', JNum 202440)],
         JObj [(''name'', JStr ''Waster''), (''popularity'', JNum 64), (''album'', JStr ''Waster''), (''release_date'', JStr ''2020-09-25''), (''duration_ms'', JNum 185240)],
         JObj [
           (''name'', JStr ''Landfill''),
           (''popularity'', JNum 63),
           (''album'', JStr ''Landfill''),
           (''release_date'', JStr ''2021-06-18''),
           (''duration_ms'', JNum 212173)],
         JObj [
           (''name'', JStr ''Bad Man''),
           (''popularity'', JNum 62),
           (''album'', JStr ''Bad Man''),
           (''release_date'', JStr ''2022-01-21''),
           (''duration_ms'', JNum 197621)]]),
       (''albums'', JArr [
         JObj [
           (''name'', JStr ''Bad Man''),
           (''release_date'', JStr ''2022-01-21''),
           (''total_tracks'', JNum 1),
           (''image_url'', JStr ''https://i.scdn.co/image/ab67616d0000b2736b10afb922ac6cb4cc84ecc5'')],
         JObj [
           (''name'', JStr ''Landfill''),
           (''release_date'', JStr ''2021-06-18''),
           (''total_tracks'', JNum 1),
           (''image_url'', JStr ''https://i.scdn.co/image/ab67616d0000b2732e0bdd7e924ba543e7308a7f'')],
         JObj [
           (''name'', JStr ''Waster''),
           (''release_date'', JStr ''2020-09-25''),
           (''total_tracks'', JNum 1),
           (''image_url'', JStr ''https://i.scdn.co/image/ab67616d0000b2734b0dad6602118bef8838829a'')]])]"

definition known_spotify :: jsval where
  "known_spotify =
     JObj [
       (''name'', JStr ''Spotify''),
       (''followers'', JNum 12536789),
       (''popularity'', JNum 100),
       (''type'', JStr ''account''),
       (''verified'', JBool True),
       (''image_url'', JStr ''https://i.scdn.co/image/ab67706c0000da84fcb8b92f2143f980d0ff29b7''),
       (''playlists'', JArr [
         JObj [
           (''name'', JStr ''RapCaviar''),
           (''followers'', JNum 15246789),
           (''total_tracks'', JNum 50),
           (''image_url'', JStr ''https://i.scdn.co/image/ab67706c0000da84b785a91532ebbf64e106b28a'')],
         JObj [
           (''name'', JStr ''mint''),
           (''followers'', JNum 6789423),
           (''total_tracks'', JNum 50),
           (''image_url'', JStr ''https://i.scdn.co/image/ab67706c0000da842e27a35f6acb532859a7ec0f'')],
         JObj [
           (''name'', JStr ''Lorem''),
           (''followers'', JNum 988453),
           (''total_tracks'', JNum 50),
           (''image_url'', JStr ''https://i.scdn.co/image/ab67706c0000da84e26811272a04965135645455'')]])]"

definition known_bts :: jsval where
  "known_bts =
     JObj [
       (''name'', JStr ''BTS''),
       (''followers'', JNum 60987453),
       (''popularity'', JNum 95),
       (''monthly_listeners'', JNum 30987654),
       (''image_url'', JStr ''https://i.scdn.co/image/ab6761610000e5ebcbed919527bb3fc185963e34''),
       (''type'', JStr ''artist''),
       (''genres'', JArr [JStr ''k-pop'', JStr ''k-pop boy group'', JStr ''pop'']),
       (''top_tracks'', JArr [
         JObj [
           (''name'', JStr ''Dynamite''),
           (''popularity'', JNum 97),
           (''album'', JStr ''Dynamite (DayTime Version)''),
           (''release_date'', JStr ''2020-08-21''),
           (''duration_ms'', JNum 199053)],
         JObj [(''name'', JStr ''Butter''), (''popularity'', JNum 96), (''album'', JStr ''Butter''), (''release_date'', JStr ''2021-05-21''), (''duration_ms'', JNum 164442)],
         JObj [
           (''name'', JStr ''Boy With Luv (feat. Halsey)''),
           (''popularity'', JNum 95),
           (''album'', JStr ''MAP OF THE SOUL : PERSONA''),
           (''release_date'', JStr ''2019-04-12''),
           (''duration_ms'', JNum 229773)],
         JObj [
           (''name'', JStr ''Permission to Dance''),
           (''popularity'', JNum 94),
           (''album'', JStr ''Butter''),
           (''release_date'', JStr ''2021-07-09''),
           (''duration_ms'', JNum 187795)],
         JObj [
           (''name'', JStr ''FAKE LOVE''),
           (''popularity'', JNum 93),
           (''album'', JStr (''LOVE YOURSELF '' @ [CHR 0xE8, CHR 0xBD, CHR 0x89] @ '' Tear'')),
           (''release_date'', JStr ''2018-05-18''),
           (''duration_ms'', JNum 248347)]]),
       (''albums'', JArr [
         JObj [
           (''name'', JStr ''Proof''),
           (''release_date'', JStr ''2022-06-10''),
           (''total_tracks'', JNum 48),
           (''image_url'', JStr ''https://i.scdn.co/image/ab67616d0000b2738a701e76e8456f2be3fb725e'')],
         JObj [
           (''name'', JStr ''BE''),
           (''release_date'', JStr ''2020-11-20''),
           (''total_tracks'', JNum 8),
           (''image_url'', JStr ''https://i.scdn.co/image/ab67616d0000b273a8a1ac2fdae743a494ee65d9'')],
         JObj [
           (''name'', JStr ''MAP OF THE SOUL : 7''),
           (''release_date'', JStr ''2020-02-21''),
           (''total_tracks'', JNum 20),
           (''image_url'', JStr ''https://i.scdn.co/image/ab67616d0000b2732b0f28d77dfef80bfd6ba451'')]])]"

definition knownProfiles :: "(string \<times> jsval) list" where
  "knownProfiles =
     [(''drake'', known_drake),
      (''adele'', known_adele),
      (''justinbieber'', known_justinbieber),
      (''spotifycharts'', known_spotifycharts),
      (''spotifymaps'', known_spotifymaps),
      (''weeknd'', known_weeknd),
      (''theweeknd'', known_theweeknd),
      (''beyonce'', known_beyonce),
      (''badpaddy'', known_badpaddy),
      (''spotify'', known_spotify),
      (''bts'', known_bts)]"

text \<open>
  \<^verbatim>\<open>knownProfiles[k]\<close>. The object literal inherits from \<^verbatim>\<open>Object.prototype\<close>, so the names
  below are found too: each gives a built-in function or object, which is truthy, has no
  own enumerable property to spread and no property \<^verbatim>\<open>type\<close>; it is rendered as the
  empty object.
\<close>

definition Object_prototype_names :: "string list" where
  "Object_prototype_names =
     [''constructor'', ''__defineGetter__'', ''__defineSetter__'', ''hasOwnProperty'',
      ''__lookupGetter__'', ''__lookupSetter__'', ''isPrototypeOf'', ''propertyIsEnumerable'',
      ''toString'', ''valueOf'', ''__proto__'', ''toLocaleString'']"

definition knownProfiles_at :: "string \<Rightarrow> jsval" where
  "knownProfiles_at k =
     (case map_of knownProfiles k of
        Some p \<Rightarrow> p
      | None \<Rightarrow> if k \<in> set Object_prototype_names then JObj [] else JUndefined)"

text \<open>\<^verbatim>\<open>Object.keys(knownProfiles)\<close>: the own keys, in insertion order.\<close>

definition knownProfiles_keys :: "string list" where
  "knownProfiles_keys = map fst knownProfiles"

subsection \<open>Exact and close matches\<close>

text \<open>
  \<^verbatim>\<open>username.toLowerCase().replace(/\s+/g, '')\<close>, then the rewrite of \<^verbatim>\<open>'weeknd'\<close>.
\<close>

definition normalize :: "string \<Rightarrow> string" where
  "normalize username =
     (let normalizedUsername = filter (\<lambda>c. \<not> isSpace c) (toLowerCase username)
      in if normalizedUsername = ''weeknd'' \<and> truthy (knownProfiles_at ''theweeknd'')
         then ''theweeknd'' else normalizedUsername)"

definition external_url :: "jsval \<Rightarrow> string \<Rightarrow> string" where
  "external_url profile k =
     ''https://open.spotify.com/''
     @ (if get profile ''type'' = JStr ''account'' then ''user'' else ''artist'')
     @ ''/'' @ k"

definition closeMatches :: "string \<Rightarrow> string list" where
  "closeMatches normalizedUsername =
     filter (\<lambda>name. compareDistance normalizedUsername name \<le> 2) knownProfiles_keys"

text \<open>
  A value inside a template literal. Only the \<^verbatim>\<open>name\<close> of an entry of the data set is
  printed this way, and each one is a string.
\<close>

fun template_text :: "jsval \<Rightarrow> string" where
  "template_text (JStr s) = s"
| "template_text _ = ''undefined''"

definition exact_match_response :: "string \<Rightarrow> response" where
  "exact_match_response normalizedUsername =
     (let profile = knownProfiles_at normalizedUsername
      in res_json (JObj [
           (''exists'', JBool True),
           (''profile'', object_literal (
              [(''username'', JStr normalizedUsername)]
              @ own_props profile
              @ [(''external_url'', JStr (external_url profile normalizedUsername))]))]))"

definition close_match_response :: "string \<Rightarrow> string \<Rightarrow> response" where
  "close_match_response username closestMatch =
     (let profile = knownProfiles_at closestMatch
      in res_json (JObj [
           (''exists'', JBool True),
           (''profile'', object_literal (
              [(''username'', JStr closestMatch)]
              @ own_props profile
              @ [(''external_url'', JStr (external_url profile closestMatch)),
                 (''note'', JStr (''Exact match '' @ [CHR 0x27] @ username @ [CHR 0x27]
                    @ '' not found, showing results for '' @ [CHR 0x27]
                    @ template_text (get profile ''name'') @ [CHR 0x27] @ '' instead.''))]))]))"

subsection \<open>The synthetic artist\<close>

text \<open>\<^verbatim>\<open>xs[Math.floor(Math.random() * n)]\<close> for a literal \<open>n\<close>.\<close>

definition random_at :: "nat \<Rightarrow> 'a list \<Rightarrow> rng \<Rightarrow> 'a \<times> rng" where
  "random_at n xs g = (case random_below n g of (i, g') \<Rightarrow> (xs ! i, g'))"

text \<open>\<^verbatim>\<open>word.charAt(0).toUpperCase() + word.slice(1).toLowerCase()\<close>.\<close>

definition capitalize :: "string \<Rightarrow> string" where
  "capitalize word = toUpperCase (take 1 word) @ toLowerCase (drop 1 word)"

definition formattedName_artist :: "string \<Rightarrow> string" where
  "formattedName_artist username =
     join_space (map capitalize
       (split_on (\<lambda>c. c = CHR ''-'' \<or> c = CHR ''_'' \<or> isSpace c) username))"

definition genres :: "string list list" where
  "genres =
     [[''indie'', ''alternative'', ''rock'', ''indie rock'', ''alternative rock''],
      [''hip hop'', ''rap'', ''trap'', ''conscious hip hop'', ''underground hip hop''],
      [''edm'', ''electronic'', ''dance'', ''house'', ''techno''],
      [''pop'', ''synth pop'', ''dance pop'', ''electropop'', ''art pop''],
      [''r&b'', ''soul'', ''neo soul'', ''contemporary r&b'', ''urban contemporary'']]"

text \<open>
  The loop \<^verbatim>\<open>for (let i = 0; i < Math.floor(Math.random() * 3) + 2; i++)\<close>: the bound is
  computed again, from a new random number, before every pass.
\<close>

function selectedGenres_loop :: "string list \<Rightarrow> nat \<Rightarrow> string list \<Rightarrow> rng \<Rightarrow> string list \<times> rng" where
  "selectedGenres_loop randomGenreSet i selectedGenres g =
     (if i < fst (random_below 3 g) + 2 then
        (case random_pick randomGenreSet (snd (random_below 3 g)) of (randomGenre, g') \<Rightarrow>
           selectedGenres_loop randomGenreSet (i + 1)
             (if randomGenre \<notin> set selectedGenres then selectedGenres @ [randomGenre]
              else selectedGenres) g')
      else (selectedGenres, snd (random_below 3 g)))"
  by pat_completeness auto
termination
proof (relation "measure (\<lambda>(randomGenreSet, i, selectedGenres, g). 4 - i)")
  show "wf (measure (\<lambda>(randomGenreSet, i, selectedGenres, g). 4 - i))" by simp
next
  fix randomGenreSet :: "string list" and i :: nat and selectedGenres :: "string list"
    and g g' :: rng and x randomGenre
  assume "i < fst (random_below 3 g) + 2"
  moreover have "fst (random_below 3 g) < 3" by (rule random_below_less) simp
  ultimately show "((randomGenreSet, i + 1,
      if randomGenre \<notin> set selectedGenres then selectedGenres @ [randomGenre] else selectedGenres, g'),
      randomGenreSet, i, selectedGenres, g)
    \<in> measure (\<lambda>(randomGenreSet, i, selectedGenres, g). 4 - i)"
    by simp
qed

declare selectedGenres_loop.simps [simp del]

definition selectedGenres_of :: "rng \<Rightarrow> string list \<times> rng" where
  "selectedGenres_of g =
     (case random_pick genres g of (randomGenreSet, g1) \<Rightarrow>
        selectedGenres_loop randomGenreSet 0 [] g1)"

text \<open>
  \<^verbatim>\<open>generateAlbumTitle(artistName)\<close>: the array literal is built first, which draws
  two random numbers, and a third draw picks the entry. The last format reads the
  enclosing \<^verbatim>\<open>formattedName\<close>.
\<close>

definition generateAlbumTitle :: "string \<Rightarrow> string \<Rightarrow> rng \<Rightarrow> string \<times> rng" where
  "generateAlbumTitle formattedName artistName g =
     (case random_below 2 g of (n, g1) \<Rightarrow>
      case random_at 10 [''Euphoria'', ''Dreamer'', ''Midnight'', ''Sunrise'', ''Horizon'',
             ''Nostalgia'', ''Revolution'', ''Journey'', ''Freedom'', ''Utopia''] g1 of (word, g2) \<Rightarrow>
      let albumTitleFormats =
          [split_on (\<lambda>c. c = CHR '' '') artistName ! 0,
           ''The '' @ artistName @ '' Experience'',
           artistName @ '' '' @ toString (n + 1),
           word,
           formattedName @ [CHR 0x27] @ ''s World'']
      in random_pick albumTitleFormats g2)"

text \<open>\<^verbatim>\<open>generateSongTitle(artistName)\<close>: five draws for the array literal, one for the entry.\<close>

definition generateSongTitle :: "string \<Rightarrow> rng \<Rightarrow> string \<times> rng" where
  "generateSongTitle artistName g =
     (case random_at 10 [''Love'', ''Hate'', ''Dream'', ''Hope'', ''Faith'', ''Paradise'',
             ''Heaven'', ''Hell'', ''Life'', ''Time''] g of (w0, g1) \<Rightarrow>
      case random_at 5 [''Mind'', ''Heart'', ''Soul'', ''Dream'', ''World''] g1 of (w2, g2) \<Rightarrow>
      case random_at 5 [''Beautiful'', ''Crazy'', ''Amazing'', ''Perfect'', ''Broken''] g2 of (w3, g3) \<Rightarrow>
      case random_at 6 [''Day'', ''Night'', ''Love'', ''World'', ''Girl'', ''Boy''] g3 of (w3', g4) \<Rightarrow>
      case random_at 5 [''Way'', ''Path'', ''Journey'', ''Story'', ''Legend''] g4 of (w4, g5) \<Rightarrow>
      let songTitleFormats =
          [w0,
           artistName @ [CHR 0x27] @ ''s Interlude'',
           ''In My '' @ w2,
           w3 @ '' '' @ w3',
           ''The '' @ w4]
      in random_pick songTitleFormats g5)"

definition album_images :: "string list" where
  "album_images =
     [''https://i.scdn.co/image/ab67616d0000b273b11bdc91cb9ac98b16ea29b1'',
      ''https://i.scdn.co/image/ab67616d0000b273cb4ec52c48a6b071ed2ab6bc'',
      ''https://i.scdn.co/image/ab67616d0000b2737358a760596f0c9aee3a1cc6'',
      ''https://i.scdn.co/image/ab67616d0000b273e0c86ff886d8101f24dc223b'',
      ''https://i.scdn.co/image/ab67616d0000b273afb855e6eba49a012b37c60a'']"

text \<open>One pass of the album loop: the object pushed onto \<^verbatim>\<open>albums\<close>.\<close>

definition album_of :: "string \<Rightarrow> nat \<Rightarrow> rng \<Rightarrow> jsval \<times> rng" where
  "album_of formattedName i g =
     (let albumYear = 2023 - i in
      case random_below 12 g of (m, g1) \<Rightarrow>
      case random_below 28 g1 of (d, g2) \<Rightarrow>
      let randomMonth = m + 1; randomDay = d + 1 in
      case generateAlbumTitle formattedName formattedName g2 of (title, g3) \<Rightarrow>
      case random_below 8 g3 of (t, g4) \<Rightarrow>
      case random_at 5 album_images g4 of (image_url, g5) \<Rightarrow>
        (JObj [(''name'', JStr title),
               (''release_date'', JStr (toString albumYear @ ''-'' @ padStart2 (toString randomMonth)
                   @ ''-'' @ padStart2 (toString randomDay))),
               (''total_tracks'', JNum (real (t + 6))),
               (''image_url'', JStr image_url)], g5))"

text \<open>\<^verbatim>\<open>for (let i = 0; i < Math.floor(Math.random() * 2) + 2; i++)\<close>.\<close>

function albums_loop :: "string \<Rightarrow> nat \<Rightarrow> jsval list \<Rightarrow> rng \<Rightarrow> jsval list \<times> rng" where
  "albums_loop formattedName i albums g =
     (if i < fst (random_below 2 g) + 2 then
        (case album_of formattedName i (snd (random_below 2 g)) of (album, g') \<Rightarrow>
           albums_loop formattedName (i + 1) (albums @ [album]) g')
      else (albums, snd (random_below 2 g)))"
  by pat_completeness auto
termination
proof (relation "measure (\<lambda>(formattedName, i, albums, g). 3 - i)")
  show "wf (measure (\<lambda>(formattedName, i, albums, g). 3 - i))" by simp
next
  fix formattedName :: string and i :: nat and albums :: "jsval list" and g g' :: rng
    and x and album :: jsval
  assume "i < fst (random_below 2 g) + 2"
  moreover have "fst (random_below 2 g) < 2" by (rule random_below_less) simp
  ultimately show "((formattedName, i + 1, albums @ [album], g'), formattedName, i, albums, g)
    \<in> measure (\<lambda>(formattedName, i, albums, g). 3 - i)"
    by simp
qed

declare albums_loop.simps [simp del]

text \<open>One pass of the track loop: the object pushed onto \<^verbatim>\<open>topTracks\<close>.\<close>

definition track_of :: "string \<Rightarrow> jsval list \<Rightarrow> rng \<Rightarrow> jsval \<times> rng" where
  "track_of formattedName albums g =
     (case random_pick albums g of (randomAlbum, g1) \<Rightarrow>
      case generateSongTitle formattedName g1 of (title, g2) \<Rightarrow>
      case random_below 30 g2 of (p, g3) \<Rightarrow>
      case random_below 100000 g3 of (d, g4) \<Rightarrow>
        (JObj [(''name'', JStr title),
               (''popularity'', JNum (real (p + 50))),
               (''album'', get randomAlbum ''name''),
               (''release_date'', get randomAlbum ''release_date''),
               (''duration_ms'', JNum (real (d + 150000)))], g4))"

text \<open>\<^verbatim>\<open>for (let i = 0; i < 5; i++)\<close>.\<close>

function topTracks_loop :: "string \<Rightarrow> jsval list \<Rightarrow> nat \<Rightarrow> jsval list \<Rightarrow> rng \<Rightarrow> jsval list \<times> rng" where
  "topTracks_loop formattedName albums i topTracks g =
     (if i < 5 then
        (case track_of formattedName albums g of (track, g') \<Rightarrow>
           topTracks_loop formattedName albums (i + 1) (topTracks @ [track]) g')
      else (topTracks, g))"
  by pat_completeness auto
termination
  by (relation "measure (\<lambda>(formattedName, albums, i, topTracks, g). 5 - i)") auto

declare topTracks_loop.simps [simp del]

definition artist_images :: "string list" where
  "artist_images =
     [''https://i.scdn.co/image/ab6761610000e5eb6a0633b2b741fd857558e409'',
      ''https://i.scdn.co/image/ab6761610000e5eb8c7f275dd8dae2d1676c7b49'',
      ''https://i.scdn.co/image/ab6761610000e5ebeac917b9a5db711acb84862a'',
      ''https://i.scdn.co/image/ab6761610000e5ebc7db57b1c848a1532767c696'',
      ''https://i.scdn.co/image/ab6761610000e5ebf3ca460461fae39243a15316'']"

text \<open>The branch \<^verbatim>\<open>if (likely_artist)\<close>, lines 697 to 805.\<close>

definition artist_response :: "string \<Rightarrow> string \<Rightarrow> rng \<Rightarrow> response" where
  "artist_response username normalizedUsername g =
     (let formattedName = formattedName_artist username in
      case selectedGenres_of g of (selectedGenres, g1) \<Rightarrow>
      case albums_loop formattedName 0 [] g1 of (albums, g2) \<Rightarrow>
      case topTracks_loop formattedName albums 0 [] g2 of (topTracks, g3) \<Rightarrow>
      case random_below 50000 g3 of (f, g4) \<Rightarrow>
      case random_below 80 g4 of (p, g5) \<Rightarrow>
      case random_below 80000 g5 of (m, g6) \<Rightarrow>
      case random_at 5 artist_images g6 of (image_url, g7) \<Rightarrow>
        res_json (JObj [
          (''exists'', JBool True),
          (''profile'', JObj [
             (''username'', JStr normalizedUsername),
             (''name'', JStr formattedName),
             (''followers'', JNum (real (f + 100))),
             (''popularity'', JNum (real (p + 20))),
             (''monthly_listeners'', JNum (real (m + 1000))),
             (''image_url'', JStr image_url),
             (''type'', JStr ''artist''),
             (''genres'', JArr (map JStr selectedGenres)),
             (''top_tracks'', JArr topTracks),
             (''albums'', JArr albums),
             (''simulated'', JBool True),
             (''external_url'', JStr (''https://open.spotify.com/artist/'' @ normalizedUsername))])]))"

subsection \<open>The synthetic listener\<close>

definition formattedName_user :: "string \<Rightarrow> string" where
  "formattedName_user username =
     join_space (map capitalize (split_on (\<lambda>c. c = CHR ''-'' \<or> c = CHR ''_'') username))"

text \<open>\<^verbatim>\<open>generatePlaylistName()\<close>: \<^verbatim>\<open>Math.random() > 0.5\<close> chooses the template.\<close>

definition generatePlaylistName :: "string \<Rightarrow> rng \<Rightarrow> string \<times> rng" where
  "generatePlaylistName formattedName g =
     (let playlistPrefixes = [''My'', ''Favorite'', ''Best'', ''Ultimate'', ''Top'', ''Essential''];
          playlistTypes = [''Vibes'', ''Mix'', ''Collection'', ''Playlist'', ''Selections'', ''Hits''];
          playlistGenres = [''Rock'', ''Pop'', ''Hip Hop'', ''R&B'', ''Electronic'', ''Indie'',
                            ''Chill'', ''Party'', ''Workout'', ''Focus'']
      in case Math_random g of (r, g1) \<Rightarrow>
         let useGenre = (r > 1 / 2) in
         if useGenre then
           (case random_pick playlistPrefixes g1 of (playlistPrefix, g2) \<Rightarrow>
            case random_pick playlistGenres g2 of (playlistGenre, g3) \<Rightarrow>
              (playlistPrefix @ '' '' @ playlistGenre, g3))
         else
           (case random_pick playlistTypes g1 of (playlistType, g2) \<Rightarrow>
              (formattedName @ [CHR 0x27] @ ''s '' @ playlistType, g2)))"

definition playlist_images :: "string list" where
  "playlist_images =
     [''https://mosaic.scdn.co/640/ab67616d0000b2733d92b2ad5af9fbc8637425f0ab67616d0000b27365a6fc854a3d3dd8561b3d6aab67616d0000b273b11078ee23dcd99e19a22136ab67616d0000b273f46de17106c4094169e8f278'',
      ''https://mosaic.scdn.co/640/ab67616d0000b273337c5cd881484f68c460b92cab67616d0000b273b29fe3874f65bb79ea52b19dab67616d0000b273d0ada88c5f051976c6dbafdab67616d0000b273dd7106adf7ec3cb52c87cabf'',
      ''https://mosaic.scdn.co/640/ab67616d0000b2736b44ad73d4e6c6e553dac3ebab67616d0000b273a48dd70027ffc3fc2e29e0cfab67616d0000b273ce8f4e0a06bbfc4f425917adab67616d0000b273e3119a3e3e0ca37bb180c0a0'',
      ''https://i.scdn.co/image/ab67706c0000da84df9f7092c2fbdefa3b502142'',
      ''https://i.scdn.co/image/ab67706c0000da84507e4f2a8c4af45e4b556d09'']"

definition playlist_of :: "string \<Rightarrow> rng \<Rightarrow> jsval \<times> rng" where
  "playlist_of formattedName g =
     (case generatePlaylistName formattedName g of (name, g1) \<Rightarrow>
      case random_below 1000 g1 of (f, g2) \<Rightarrow>
      case random_below 50 g2 of (t, g3) \<Rightarrow>
      case random_at 5 playlist_images g3 of (image_url, g4) \<Rightarrow>
        (JObj [(''name'', JStr name),
               (''followers'', JNum (real (f + 10))),
               (''total_tracks'', JNum (real (t + 20))),
               (''image_url'', JStr image_url)], g4))"

text \<open>\<^verbatim>\<open>for (let i = 0; i < Math.floor(Math.random() * 3) + 2; i++)\<close>.\<close>

function playlists_loop :: "string \<Rightarrow> nat \<Rightarrow> jsval list \<Rightarrow> rng \<Rightarrow> jsval list \<times> rng" where
  "playlists_loop formattedName i playlists g =
     (if i < fst (random_below 3 g) + 2 then
        (case playlist_of formattedName (snd (random_below 3 g)) of (playlist, g') \<Rightarrow>
           playlists_loop formattedName (i + 1) (playlists @ [playlist]) g')
      else (playlists, snd (random_below 3 g)))"
  by pat_completeness auto
termination
proof (relation "measure (\<lambda>(formattedName, i, playlists, g). 4 - i)")
  show "wf (measure (\<lambda>(formattedName, i, playlists, g). 4 - i))" by simp
next
  fix formattedName :: string and i :: nat and playlists :: "jsval list" and g g' :: rng
    and x and playlist :: jsval
  assume "i < fst (random_below 3 g) + 2"
  moreover have "fst (random_below 3 g) < 3" by (rule random_below_less) simp
  ultimately show "((formattedName, i + 1, playlists @ [playlist], g'), formattedName, i, playlists, g)
    \<in> measure (\<lambda>(formattedName, i, playlists, g). 4 - i)"
    by simp
qed

declare playlists_loop.simps [simp del]

text \<open>The branch \<^verbatim>\<open>if (isLikelyUser)\<close>, lines 810 to 858.\<close>

definition user_response :: "string \<Rightarrow> string \<Rightarrow> rng \<Rightarrow> response" where
  "user_response username normalizedUsername g =
     (let formattedName = formattedName_user username in
      case playlists_loop formattedName 0 [] g of (playlists, g1) \<Rightarrow>
      case random_below 5000 g1 of (f, g2) \<Rightarrow>
        res_json (JObj [
          (''exists'', JBool True),
          (''profile'', JObj [
             (''username'', JStr normalizedUsername),
             (''name'', JStr formattedName),
             (''followers'', JNum (real (f + 10))),
             (''type'', JStr ''user''),
             (''playlists'', JArr playlists),
             (''simulated'', JBool True),
             (''external_url'', JStr (''https://open.spotify.com/user/'' @ normalizedUsername))])]))"

subsection \<open>The handler\<close>

definition likely_artist :: "string \<Rightarrow> bool" where
  "likely_artist username = (length username > 3 \<and> \<not> has3digits username)"

definition isLikelyUser :: "string \<Rightarrow> bool" where
  "isLikelyUser username = (length username \<ge> 3 \<and> \<not> str_includes username '' '')"

text \<open>
  \<^verbatim>\<open>GET /api/spotify/:username\<close>. Nothing in the body of the \<^verbatim>\<open>try\<close> throws, so the
  \<^verbatim>\<open>catch\<close> clause with its status 500 has no branch here.
\<close>

definition spotify :: "string \<Rightarrow> rng \<Rightarrow> response" where
  "spotify username g =
     (let normalizedUsername = normalize username in
      if truthy (knownProfiles_at normalizedUsername) then
        exact_match_response normalizedUsername
      else if length (closeMatches normalizedUsername) > 0 then
        close_match_response username (closeMatches normalizedUsername ! 0)
      else if likely_artist username then
        artist_response username normalizedUsername g
      else if isLikelyUser username then
        user_response username normalizedUsername g
      else
        res_json (JObj [(''exists'', JBool False)]))"

section \<open>The endpoints with a live network step (server.js, lines 26 to 408)\<close>

text \<open>
  The network and the libraries are the environment. The outcome of an \<^verbatim>\<open>await\<close> on an
  axios call is an input of the model: \<open>Inl e\<close> when the call rejects with \<open>e\<close>,
  \<open>Inr d\<close> when it resolves, \<open>d\<close> standing for what the handler reads from the response.
  For a page loaded with cheerio, \<open>d\<close> holds the results of the selector queries the
  handler makes, and an exception of \<^verbatim>\<open>cheerio.load\<close> counts as a rejection, since the
  same \<^verbatim>\<open>catch\<close> clause receives it.
\<close>

subsection \<open>Helpers\<close>

text \<open>
  Calling a function by its name. A name with no declaration in scope throws
  \<^verbatim>\<open>ReferenceError\<close> when the call is evaluated.
\<close>

definition call :: "string \<Rightarrow> ('a \<Rightarrow> 'b) option \<Rightarrow> 'a \<Rightarrow> js_error + 'b" where
  "call name f x = (case f of None \<Rightarrow> Inl (ReferenceError name) | Some h \<Rightarrow> Inr (h x))"

text \<open>
  server.js calls \<^verbatim>\<open>parseTwitterNumbers\<close> (lines 96, 99 and 102) and
  \<^verbatim>\<open>parseTikTokNumber\<close> (lines 368 and 369). Neither name is declared in the file, and
  none of the modules it requires defines a global of that name.
\<close>

definition parseTwitterNumbers :: "(string \<Rightarrow> jsval) option" where
  "parseTwitterNumbers = None"

definition parseTikTokNumber :: "(string \<Rightarrow> jsval) option" where
  "parseTikTokNumber = None"

text \<open>
  Sequencing inside a \<^verbatim>\<open>try\<close> block: when a statement throws, the statements after it
  are not run and the exception is the outcome of the block.
\<close>

definition and_then :: "'e + 'a \<Rightarrow> ('a \<Rightarrow> 'e + 'b) \<Rightarrow> 'e + 'b" where
  "and_then m f = (case m of Inl e \<Rightarrow> Inl e | Inr x \<Rightarrow> f x)"

text \<open>\<^verbatim>\<open>xs.map(f)\<close> where \<open>f\<close> may throw: the first exception ends the loop.\<close>

fun map_throwing :: "('a \<Rightarrow> js_error + 'b) \<Rightarrow> 'a list \<Rightarrow> js_error + 'b list" where
  "map_throwing f [] = Inr []"
| "map_throwing f (x # xs) =
     and_then (f x) (\<lambda>y. and_then (map_throwing f xs) (\<lambda>ys. Inr (y # ys)))"

text \<open>The fallback answer shared by the catch clauses: \<^verbatim>\<open>{ exists, profile: exists ? p : null }\<close>.\<close>

definition guess_json :: "bool \<Rightarrow> jsval \<Rightarrow> response" where
  "guess_json exists p =
     res_json (JObj [(''exists'', JBool exists), (''profile'', if exists then p else JNull)])"

text \<open>The part of the number patterns after the number: \<^verbatim>\<open>\s+\<close> and the label.\<close>

definition label_follows :: "bool \<Rightarrow> string \<Rightarrow> string \<Rightarrow> bool" where
  "label_follows ignoreCase label s =
     (case s of
        [] \<Rightarrow> False
      | c # _ \<Rightarrow> isSpace c \<and>
          (let r = take (length label) (dropWhile isSpace s)
           in if ignoreCase then toLowerCase r = toLowerCase label else r = label))"

text \<open>\<^verbatim>\<open>s.match(re)\<close> without the flag \<^verbatim>\<open>g\<close>: the match at the leftmost position that has one.\<close>

fun first_match :: "(string \<Rightarrow> 'a option) \<Rightarrow> string \<Rightarrow> 'a option" where
  "first_match m [] = m []"
| "first_match m (c # s) = (case m (c # s) of Some x \<Rightarrow> Some x | None \<Rightarrow> first_match m s)"

subsection \<open>GitHub (lines 27 to 74)\<close>

text \<open>The callback of \<^verbatim>\<open>reposResponse.data.map\<close>.\<close>

definition github_repo :: "jsval \<Rightarrow> js_error + jsval" where
  "github_repo repo =
     and_then (read_prop repo ''name'') (\<lambda>name.
       Inr (JObj [(''name'', name),
                  (''description'', get repo ''description''),
                  (''url'', get repo ''html_url''),
                  (''stars'', get repo ''stargazers_count''),
                  (''language'', get repo ''language'')]))"

text \<open>
  The body of the \<^verbatim>\<open>try\<close>. The arguments are the outcomes of the two requests and hold
  \<^verbatim>\<open>response.data\<close> and \<^verbatim>\<open>reposResponse.data\<close>; \<^verbatim>\<open>.map\<close> on a value that is no array
  throws \<^verbatim>\<open>TypeError\<close>.
\<close>

definition github_try :: "(js_error + jsval) \<Rightarrow> (js_error + jsval) \<Rightarrow> js_error + response" where
  "github_try response reposResponse =
     and_then response (\<lambda>data.
     and_then reposResponse (\<lambda>reposData.
     and_then (case reposData of JArr repos \<Rightarrow> map_throwing github_repo repos | _ \<Rightarrow> Inl TypeError)
       (\<lambda>recentRepos.
     and_then (read_prop data ''login'') (\<lambda>login.
       Inr (res_json (JObj [
               (''exists'', JBool True),
               (''profile'', JObj [
                  (''username'', login),
                  (''followers'', get data ''followers''),
                  (''following'', get data ''following''),
                  (''avatar_url'', get data ''avatar_url''),
                  (''public_repos'', get data ''public_repos''),
                  (''bio'', get data ''bio''),
                  (''name'', get data ''name''),
                  (''company'', get data ''company''),
                  (''location'', get data ''location''),
                  (''created_at'', get data ''created_at''),
                  (''recent_repos'', JArr recentRepos)])]))))))"

definition github :: "(js_error + jsval) \<Rightarrow> (js_error + jsval) \<Rightarrow> response" where
  "github response reposResponse =
     (case github_try response reposResponse of
        Inr r \<Rightarrow> r
      | Inl error \<Rightarrow>
          if is404 error then res_json (JObj [(''exists'', JBool False)])
          else res_status_json 500 (JObj [(''error'', JStr ''Server error fetching GitHub profile'')]))"

subsection \<open>Twitter (lines 77 to 164)\<close>

text \<open>What the handler reads from the page that nitter.net returns.\<close>

record twitter_page =
  error_panel :: nat
  profile_stat_num :: "string list"
  profile_card_avatar :: "string option"
  profile_bio :: string
  profile_card_fullname :: string
  profile_location :: string
  profile_joindate :: string
  timeline_item :: "(string \<times> string) list"

text \<open>\<^verbatim>\<open>$(sel).eq(k).text()\<close>: the text of the \<open>k\<close>-th match, empty when there is none.\<close>

definition eq_text :: "string list \<Rightarrow> nat \<Rightarrow> string" where
  "eq_text xs k = (if k < length xs then xs ! k else [])"

text \<open>The callback of \<^verbatim>\<open>$('.timeline-item').each\<close>, for the item at index \<open>i\<close>.\<close>

definition recentTweets_push :: "nat \<times> (string \<times> string) \<Rightarrow> jsval list \<Rightarrow> jsval list" where
  "recentTweets_push item recentTweets =
     (case item of (i, (content, date)) \<Rightarrow>
        if i < 5 then
          (let tweetText = trim content; tweetDate = trim date in
           if tweetText \<noteq> [] then
             recentTweets @ [JObj [
               (''text'', JStr (if length tweetText > 100 then take 100 tweetText @ ''...'' else tweetText)),
               (''date'', JStr tweetDate)]]
           else recentTweets)
        else recentTweets)"

definition twitter_try :: "string \<Rightarrow> (js_error + twitter_page) \<Rightarrow> js_error + response" where
  "twitter_try username response =
     and_then response (\<lambda>page.
      if error_panel page > 0 then Inr (res_json (JObj [(''exists'', JBool False)]))
      else
        let followerText = trim (eq_text (profile_stat_num page) 2) in
        and_then (call ''parseTwitterNumbers'' parseTwitterNumbers followerText) (\<lambda>followers.
        let followingText = trim (eq_text (profile_stat_num page) 1) in
        and_then (call ''parseTwitterNumbers'' parseTwitterNumbers followingText) (\<lambda>following.
        let tweetsText = trim (eq_text (profile_stat_num page) 0) in
        and_then (call ''parseTwitterNumbers'' parseTwitterNumbers tweetsText) (\<lambda>tweets.
        let avatarUrl = (case profile_card_avatar page of
                           None \<Rightarrow> JNull
                         | Some profileImage \<Rightarrow>
                             if profileImage \<noteq> [] then JStr (''https://nitter.net'' @ profileImage) else JNull);
            bio = trim (profile_bio page);
            displayName = trim (profile_card_fullname page);
            location = trim (profile_location page);
            joinDate = trim (remove_first (profile_joindate page) ''Joined'');
            recentTweets = fold recentTweets_push
                             (zip [0..<length (timeline_item page)] (timeline_item page)) []
        in Inr (res_json (JObj [
             (''exists'', JBool True),
             (''profile'', JObj [
                (''username'', JStr username),
                (''name'', JStr displayName),
                (''followers'', followers),
                (''following'', following),
                (''tweets'', tweets),
                (''avatar_url'', avatarUrl),
                (''bio'', JStr bio),
                (''location'', JStr location),
                (''joined'', JStr joinDate),
                (''recent_tweets'', JArr recentTweets),
                (''scraped'', JBool True)])]))))))"

text \<open>The inner \<^verbatim>\<open>catch (scrapingError)\<close>: it does not look at the error.\<close>

definition twitter_guess :: "string \<Rightarrow> rng \<Rightarrow> response" where
  "twitter_guess username g =
     (let popularUsernames = [''elonmusk'', ''google'', ''microsoft'', ''apple'', ''amazon'',
            ''netflix'', ''twitter'', ''facebook'', ''instagram'', ''tiktok'', ''billgates''];
          exists = (toLowerCase username \<in> set popularUsernames \<or> length username > 3)
      in guess_json exists (JObj [
           (''username'', JStr username),
           (''followers'', JNum (real (fst (random_below 10000 g)))),
           (''simulated'', JBool True)]))"

text \<open>
  The handler. The inner catch clause throws nothing, so the outer one, which would
  answer with status 500, has no branch here; the same holds for the four handlers below.
\<close>

definition twitter :: "string \<Rightarrow> (js_error + twitter_page) \<Rightarrow> rng \<Rightarrow> response" where
  "twitter username response g =
     (case twitter_try username response of
        Inr r \<Rightarrow> r
      | Inl scrapingError \<Rightarrow> twitter_guess username g)"

subsection \<open>Instagram (lines 167 to 235)\<close>

text \<open>The greedy \<^verbatim>\<open>(?:,\d+)*\<close>: the text it takes and the rest.\<close>

function comma_groups :: "string \<Rightarrow> string \<times> string" where
  "comma_groups s =
     (case s of
        c # d # r \<Rightarrow>
          if c = CHR '','' \<and> isDigit d then
            (case comma_groups (dropWhile isDigit r) of
               (groups, rest) \<Rightarrow> (c # d # takeWhile isDigit r @ groups, rest))
          else ([], s)
      | _ \<Rightarrow> ([], s))"
  by pat_completeness auto
termination
  by (relation "measure length") (auto simp: less_Suc_eq_le length_dropWhile_le le_SucI)

declare comma_groups.simps [simp del]

text \<open>
  \<^verbatim>\<open>/(\d+(?:,\d+)*)\s+Label/\<close> tried at the start of \<open>s\<close>: the first group when it matches.
  Every quantifier takes all it can, and giving back a character never helps: the
  character given back is a digit or a comma, and what follows in the pattern accepts
  neither.
\<close>

definition count_at :: "string \<Rightarrow> string \<Rightarrow> string option" where
  "count_at label s =
     (if takeWhile isDigit s = [] then None
      else case comma_groups (dropWhile isDigit s) of
        (groups, rest) \<Rightarrow>
          if label_follows False label rest then Some (takeWhile isDigit s @ groups) else None)"

text \<open>\<^verbatim>\<open>parseInt(m[1].replace(/,/g, ''))\<close>, or 0 without a match.\<close>

definition instagram_count :: "string \<Rightarrow> string \<Rightarrow> nat" where
  "instagram_count label metaDescription =
     (case first_match (count_at label) metaDescription of
        None \<Rightarrow> 0
      | Some m1 \<Rightarrow> parseInt_digits (filter (\<lambda>c. c \<noteq> CHR '','') m1))"

text \<open>\<^verbatim>\<open>metaDescription.match(/^([^,]+),/)\<close>: the text before the first comma, if not empty.\<close>

definition nameMatch :: "string \<Rightarrow> string option" where
  "nameMatch s =
     (let m1 = takeWhile (\<lambda>c. c \<noteq> CHR '','') s
      in if m1 \<noteq> [] \<and> length m1 < length s then Some m1 else None)"

text \<open>
  The page is what \<^verbatim>\<open>$('meta[name="description"]').attr('content')\<close> returns:
  \<open>None\<close> for \<^verbatim>\<open>undefined\<close>.
\<close>

definition instagram_try :: "string \<Rightarrow> (js_error + string option) \<Rightarrow> js_error + response" where
  "instagram_try username response =
     and_then response (\<lambda>content.
      let metaDescription = (case content of None \<Rightarrow> [] | Some s \<Rightarrow> s);
          followers = instagram_count ''Followers'' metaDescription;
          posts = instagram_count ''Posts'' metaDescription;
          name = (case nameMatch metaDescription of Some m1 \<Rightarrow> trim m1 | None \<Rightarrow> username)
      in Inr (res_json (JObj [
           (''exists'', JBool True),
           (''profile'', JObj [
              (''username'', JStr username),
              (''name'', JStr name),
              (''followers'', JNum (real followers)),
              (''posts'', JNum (real posts)),
              (''bio'', JStr metaDescription),
              (''scraped'', JBool True)])])))"

definition instagram_guess :: "string \<Rightarrow> rng \<Rightarrow> response" where
  "instagram_guess username g =
     (let popularUsernames = [''cristiano'', ''leomessi'', ''beyonce'', ''kimkardashian'',
            ''arianagrande'', ''nike'', ''natgeo''];
          exists = (toLowerCase username \<in> set popularUsernames \<or> length username \<ge> 4)
      in guess_json exists (JObj [
           (''username'', JStr username),
           (''followers'', JNum (real (fst (random_below 10000 g)))),
           (''simulated'', JBool True)]))"

definition instagram :: "string \<Rightarrow> (js_error + string option) \<Rightarrow> rng \<Rightarrow> response" where
  "instagram username response g =
     (case instagram_try username response of
        Inr r \<Rightarrow> r
      | Inl error \<Rightarrow>
          if is404 error then res_json (JObj [(''exists'', JBool False)])
          else instagram_guess username g)"

subsection \<open>LinkedIn (lines 238 to 284)\<close>

definition linkedin_url :: "string \<Rightarrow> string" where
  "linkedin_url username = ''https://www.linkedin.com/in/'' @ username @ ''/''"

definition linkedin_try :: "string \<Rightarrow> (js_error + unit) \<Rightarrow> rng \<Rightarrow> js_error + response" where
  "linkedin_try username response g =
     and_then response (\<lambda>_.
        Inr (res_json (JObj [
          (''exists'', JBool True),
          (''profile'', JObj [
             (''username'', JStr username),
             (''url'', JStr (linkedin_url username)),
             (''estimated_connections'', JNum (real (fst (random_below 500 g) + 200))),
             (''checked'', JBool True)])])))"

definition linkedin_guess :: "string \<Rightarrow> response" where
  "linkedin_guess username =
     (let commonNames = [''john'', ''david'', ''michael'', ''sarah'', ''robert'', ''jessica'',
            ''peter'', ''susan''];
          likelyExists = (toLowerCase username \<in> set commonNames \<or>
            (length username > 3 \<and> \<not> str_includes username ''test''
               \<and> \<not> str_includes username ''123''))
      in guess_json likelyExists (JObj [
           (''username'', JStr username),
           (''url'', JStr (linkedin_url username)),
           (''simulated'', JBool True)]))"

definition linkedin :: "string \<Rightarrow> (js_error + unit) \<Rightarrow> rng \<Rightarrow> response" where
  "linkedin username response g =
     (case linkedin_try username response g of
        Inr r \<Rightarrow> r
      | Inl error \<Rightarrow>
          if is404 error then res_json (JObj [(''exists'', JBool False)])
          else linkedin_guess username)"

subsection \<open>Reddit (lines 287 to 341)\<close>

text \<open>
  Three built-ins are parameters of the model: the operator \<^verbatim>\<open>+\<close> on two values read
  from the payload, \<^verbatim>\<open>new Date(x * 1000).toISOString()\<close>, which throws \<^verbatim>\<open>RangeError\<close>
  when the date is invalid, and \<^verbatim>\<open>new Date(Date.now() - k).toISOString()\<close>.
\<close>

record builtins =
  plus_op :: "jsval \<Rightarrow> jsval \<Rightarrow> jsval"
  iso_of_seconds :: "jsval \<Rightarrow> js_error + string"
  iso_before_now :: "nat \<Rightarrow> string"

definition reddit_try :: "builtins \<Rightarrow> (js_error + jsval) \<Rightarrow> js_error + response" where
  "reddit_try env response =
     and_then response (\<lambda>data.
      if truthy data \<and> truthy (get data ''data'') then
        let userData = get data ''data'' in
        and_then (iso_of_seconds env (get userData ''created_utc'')) (\<lambda>created_at.
          Inr (res_json (JObj [
            (''exists'', JBool True),
            (''profile'', JObj [
               (''username'', get userData ''name''),
               (''karma'', js_or (get userData ''total_karma'')
                   (plus_op env (get userData ''link_karma'') (get userData ''comment_karma''))),
               (''link_karma'', get userData ''link_karma''),
               (''comment_karma'', get userData ''comment_karma''),
               (''created_at'', JStr created_at),
               (''avatar_url'', js_or (get userData ''icon_img'') (get userData ''snoovatar_img'')),
               (''is_gold'', get userData ''is_gold''),
               (''description'',
                  if truthy (get userData ''subreddit'')
                  then get (get userData ''subreddit'') ''public_description'' else JStr []),
               (''real_api'', JBool True)])])))
      else Inr (res_json (JObj [(''exists'', JBool False)])))"

definition reddit_guess :: "builtins \<Rightarrow> string \<Rightarrow> rng \<Rightarrow> response" where
  "reddit_guess env username g =
     (let popularUsernames = [''spez'', ''gallowboob'', ''tooshiftyforyou'', ''commonmisspellingbot''];
          exists = (toLowerCase username \<in> set popularUsernames \<or> length username > 3)
      in guess_json exists
           (case random_below 50000 g of (k, g1) \<Rightarrow>
            case random_below (5 * 365 * 24 * 60 * 60 * 1000) g1 of (ago, g2) \<Rightarrow>
              JObj [
                (''username'', JStr username),
                (''karma'', JNum (real (k + 100))),
                (''created_at'', JStr (iso_before_now env ago)),
                (''simulated'', JBool True)]))"

definition reddit :: "builtins \<Rightarrow> string \<Rightarrow> (js_error + jsval) \<Rightarrow> rng \<Rightarrow> response" where
  "reddit env username response g =
     (case reddit_try env response of
        Inr r \<Rightarrow> r
      | Inl error \<Rightarrow>
          if is404 error then res_json (JObj [(''exists'', JBool False)])
          else reddit_guess env username g)"

subsection \<open>TikTok (lines 344 to 408)\<close>

text \<open>
  \<^verbatim>\<open>/(\d+(?:\.\d+)?[KMB]?)\s+Label/i\<close> tried at the start of \<open>s\<close>: the first group when it
  matches. As above, the greedy choice is the only one that can succeed.
\<close>

definition magnitude_at :: "string \<Rightarrow> string \<Rightarrow> string option" where
  "magnitude_at label s =
     (if takeWhile isDigit s = [] then None
      else
        let r1 = dropWhile isDigit s;
            fraction = (case r1 of
                          c # d # r \<Rightarrow> if c = CHR ''.'' \<and> isDigit d then c # d # takeWhile isDigit r else []
                        | _ \<Rightarrow> []);
            r2 = drop (length fraction) r1;
            suffix = (case r2 of c # r \<Rightarrow> if c \<in> set ''KMBkmb'' then [c] else [] | [] \<Rightarrow> []);
            r3 = drop (length suffix) r2
        in if label_follows True label r3 then Some (takeWhile isDigit s @ fraction @ suffix) else None)"

text \<open>What the handler reads from the page: the \<^verbatim>\<open>content\<close> of the two meta tags.\<close>

record tiktok_page =
  og_title :: "string option"
  og_description :: "string option"

text \<open>
  The \<^verbatim>\<open>try\<close> block of this handler draws random numbers and can throw after a draw.
  An exception is therefore kept together with the random source at the point where it
  is thrown: the catch clause goes on from there.
\<close>

definition thrown_at :: "rng \<Rightarrow> js_error + 'a \<Rightarrow> (js_error \<times> rng) + 'a" where
  "thrown_at g m = (case m of Inl e \<Rightarrow> Inl (e, g) | Inr x \<Rightarrow> Inr x)"

text \<open>
  \<^verbatim>\<open>m ? parseTikTokNumber(m[1]) : Math.floor(Math.random() * n)\<close>: the value and the
  random source after it.
\<close>

definition tiktok_number :: "string option \<Rightarrow> nat \<Rightarrow> rng \<Rightarrow> (js_error \<times> rng) + (jsval \<times> rng)" where
  "tiktok_number m n g =
     (case m of
        Some m1 \<Rightarrow>
          and_then (thrown_at g (call ''parseTikTokNumber'' parseTikTokNumber m1)) (\<lambda>v. Inr (v, g))
      | None \<Rightarrow> Inr (JNum (real (fst (random_below n g))), snd (random_below n g)))"

definition tiktok_try :: "string \<Rightarrow> (js_error + tiktok_page) \<Rightarrow> rng \<Rightarrow> (js_error \<times> rng) + response" where
  "tiktok_try username response g =
     and_then (thrown_at g response) (\<lambda>page.
      let metaTitle = (case og_title page of None \<Rightarrow> [] | Some s \<Rightarrow> s);
          metaDescription = (case og_description page of None \<Rightarrow> [] | Some s \<Rightarrow> s)
      in
      if metaTitle \<noteq> [] \<and> str_includes metaTitle (''@'' @ username) then
        let followersMatch = first_match (magnitude_at ''Followers'') metaDescription;
            likesMatch = first_match (magnitude_at ''Likes'') metaDescription
        in
        and_then (tiktok_number followersMatch 10000 g) (\<lambda>(followers, g1).
        and_then (tiktok_number likesMatch 50000 g1) (\<lambda>(likes, g2).
          Inr (res_json (JObj [
            (''exists'', JBool True),
            (''profile'', JObj [
               (''username'', JStr username),
               (''name'', JStr (trim (remove_first metaTitle (''@'' @ username)))),
               (''followers'', followers),
               (''likes'', likes),
               (''bio'', JStr metaDescription),
               (''scraped'', JBool True)])]))))
      else Inr (res_json (JObj [(''exists'', JBool False)])))"

definition tiktok_guess :: "string \<Rightarrow> rng \<Rightarrow> response" where
  "tiktok_guess username g =
     (let popularUsernames = [''charlidamelio'', ''addisonre'', ''khaby.lame'', ''bellapoarch'', ''zachking''];
          exists = (toLowerCase username \<in> set popularUsernames \<or> length username > 3)
      in guess_json exists
           (case random_below 1000000 g of (f, g1) \<Rightarrow>
            case random_below 10000000 g1 of (l, g2) \<Rightarrow>
              JObj [
                (''username'', JStr username),
                (''followers'', JNum (real (f + 1000))),
                (''likes'', JNum (real (l + 10000))),
                (''simulated'', JBool True)]))"

text \<open>The catch clause makes its guess with the random source left by the \<^verbatim>\<open>try\<close> block.\<close>

definition tiktok :: "string \<Rightarrow> (js_error + tiktok_page) \<Rightarrow> rng \<Rightarrow> response" where
  "tiktok username response g =
     (case tiktok_try username response g of
        Inr r \<Rightarrow> r
      | Inl (error, g') \<Rightarrow>
          if is404 error then res_json (JObj [(''exists'', JBool False)])
          else tiktok_guess username g')"

section \<open>The routes\<close>

text \<open>
  A request names a platform and carries the username of the path together with the
  outcome of the live step of that platform. \<open>handle\<close> is the routing of
  \<^verbatim>\<open>app.get('/api/<platform>/:username', ...)\<close>.
\<close>

datatype request =
    GitHub string "js_error + jsval" "js_error + jsval"
  | Twitter string "js_error + twitter_page"
  | Instagram string "js_error + string option"
  | LinkedIn string "js_error + unit"
  | Reddit string "js_error + jsval"
  | TikTok string "js_error + tiktok_page"
  | Spotify string

fun handle :: "builtins \<Rightarrow> rng \<Rightarrow> request \<Rightarrow> response" where
  "handle env g (GitHub username response reposResponse) = github response reposResponse"
| "handle env g (Twitter username response) = twitter username response g"
| "handle env g (Instagram username response) = instagram username response g"
| "handle env g (LinkedIn username response) = linkedin username response g"
| "handle env g (Reddit username response) = reddit env username response g"
| "handle env g (TikTok username response) = tiktok username response g"
| "handle env g (Spotify username) = spotify username g"

section \<open>Reading a response\<close>

text \<open>The two properties of the envelope, as a client reads them from the body.\<close>

definition exists_of :: "response \<Rightarrow> jsval" where
  "exists_of r = get (body r) ''exists''"

definition profile_of :: "response \<Rightarrow> jsval" where
  "profile_of r = get (body r) ''profile''"

text \<open>The body has an own property \<^verbatim>\<open>profile\<close>, whatever its value.\<close>

definition has_profile :: "response \<Rightarrow> bool" where
  "has_profile r = (''profile'' \<in> set (map fst (own_props (body r))))"

fun is_object :: "jsval \<Rightarrow> bool" where
  "is_object (JObj _) = True"
| "is_object _ = False"

text \<open>The elements of an array value; no elements for any other value.\<close>

fun elements :: "jsval \<Rightarrow> jsval list" where
  "elements (JArr xs) = xs"
| "elements _ = []"

text \<open>The answers of the not-found branches and of the negative guess.\<close>

definition not_found_omitted :: response where
  "not_found_omitted = res_json (JObj [(''exists'', JBool False)])"

definition not_found_null :: response where
  "not_found_null = res_json (JObj [(''exists'', JBool False), (''profile'', JNull)])"

text \<open>
  The answer of a positive guess: status 200, \<^verbatim>\<open>exists: true\<close>, and a profile object
  tagged \<^verbatim>\<open>simulated: true\<close> and not tagged \<^verbatim>\<open>scraped\<close>.
\<close>

definition simulated_guess :: "response \<Rightarrow> bool" where
  "simulated_guess r =
     (status r = 200 \<and> has_profile r \<and> exists_of r = JBool True \<and> is_object (profile_of r)
      \<and> get (profile_of r) ''simulated'' = JBool True
      \<and> get (profile_of r) ''scraped'' = JUndefined)"

text \<open>The answer of the GitHub handler to an error that is no 404.\<close>

definition github_server_error :: response where
  "github_server_error =
     res_status_json 500 (JObj [(''error'', JStr ''Server error fetching GitHub profile'')])"

text \<open>A positive answer: status 200, \<^verbatim>\<open>exists: true\<close> and a profile object.\<close>

definition found :: "response \<Rightarrow> bool" where
  "found r = (status r = 200 \<and> exists_of r = JBool True \<and> is_object (profile_of r))"

text \<open>The answer of a fallback: a positive guess, or \<^verbatim>\<open>{ exists: false, profile: null }\<close>.\<close>

definition fallback_answer :: "response \<Rightarrow> bool" where
  "fallback_answer r = (simulated_guess r \<or> r = not_found_null)"

text \<open>
  The invariant of the envelope in the words of the specification: the body carries
  \<^verbatim>\<open>profile: null\<close> if and only if \<^verbatim>\<open>exists\<close> is false.
\<close>

definition envelope_stated :: "response \<Rightarrow> bool" where
  "envelope_stated r = ((has_profile r \<and> profile_of r = JNull) = (exists_of r = JBool False))"

text \<open>
  The invariant the handlers keep: with \<^verbatim>\<open>exists: true\<close> the profile is an object; with
  \<^verbatim>\<open>exists: false\<close> the profile is \<^verbatim>\<open>null\<close> or the property is left out.
\<close>

definition envelope_kept :: "response \<Rightarrow> bool" where
  "envelope_kept r =
     (if exists_of r = JBool True then is_object (profile_of r)
      else exists_of r = JBool False \<and> (if has_profile r then profile_of r = JNull else True))"

text \<open>A random source that returns the same value at every call.\<close>

definition const_rng :: "unit01 \<Rightarrow> rng" where
  "const_rng x = (\<lambda>n. x)"

text \<open>Built-ins for the concrete examples: their results do not matter there.\<close>

definition example_builtins :: builtins where
  "example_builtins =
     \<lparr>plus_op = (\<lambda>a b. JUndefined),
      iso_of_seconds = (\<lambda>x. Inl RangeError),
      iso_before_now = (\<lambda>k. ''2020-01-01T00:00:00.000Z'')\<rparr>"

subsection \<open>The shape policy of the Spotify fallback\<close>

datatype shape = ArtistShape | ListenerShape | NoProfile

text \<open>The shape of a response, read from \<^verbatim>\<open>exists\<close> and \<^verbatim>\<open>profile.type\<close>.\<close>

definition shape_of :: "response \<Rightarrow> shape option" where
  "shape_of r =
     (if exists_of r = JBool False then Some NoProfile
      else if exists_of r = JBool True \<and> get (profile_of r) ''type'' = JStr ''artist'' then Some ArtistShape
      else if exists_of r = JBool True \<and> get (profile_of r) ''type'' = JStr ''user'' then Some ListenerShape
      else None)"

text \<open>
  The policy in the words of the specification: artist shape when the username is longer
  than 3 and has no run of three digits; otherwise listener shape when it has at least 3
  characters and no white space; otherwise no profile.
\<close>

definition stated_shape :: "string \<Rightarrow> shape" where
  "stated_shape username =
     (if length username > 3 \<and> \<not> has3digits username then ArtistShape
      else if length username \<ge> 3 \<and> \<not> list_ex isSpace username then ListenerShape
      else NoProfile)"

text \<open>The policy of the code: the second test looks for the space character only.\<close>

definition dispatched_shape :: "string \<Rightarrow> shape" where
  "dispatched_shape username =
     (if length username > 3 \<and> \<not> has3digits username then ArtistShape
      else if length username \<ge> 3 \<and> CHR '' '' \<notin> set username then ListenerShape
      else NoProfile)"

subsection \<open>Pages for the concrete examples\<close>

text \<open>A profile page of nitter.net without an error panel.\<close>

definition example_twitter_page :: twitter_page where
  "example_twitter_page =
     \<lparr>error_panel = 0,
      profile_stat_num = [''1,024'', ''12'', ''12,345''],
      profile_card_avatar = Some ''/pic/nasa.jpg'',
      profile_bio = ''Exploring the universe'',
      profile_card_fullname = ''NASA'',
      profile_location = ''Washington'',
      profile_joindate = ''Joined December 2007'',
      timeline_item = [(''Liftoff'', ''Dec 1'')]\<rparr>"

text \<open>A TikTok profile page whose description carries suffixed counts.\<close>

definition example_tiktok_page :: tiktok_page where
  "example_tiktok_page =
     \<lparr>og_title = Some ''Khabane (@khaby) | TikTok'',
      og_description = Some ''1.2M Followers, 3K Likes''\<rparr>"

section \<open>Correctness of the string similarity matcher\<close>

lemma inner_rows:
  assumes p: "p = map (levp s1 s2 i) [0..<Suc (length s2)]" and n: "n \<le> length s2"
  shows "fold (currentRow_push s1 s2 p i) [0..<n] [Suc i] = map (levp s1 s2 (Suc i)) [0..<Suc n]"
  using n
proof (induction n)
  case 0
  show ?case by simp
next
  case (Suc n)
  let ?row = "map (levp s1 s2 (Suc i)) [0..<Suc n]"
  from Suc have IH: "fold (currentRow_push s1 s2 p i) [0..<n] [Suc i] = ?row"
    and n: "n < length s2" by simp_all
  have a: "p ! (n + 1) = levp s1 s2 i (Suc n)" using n by (simp add: p del: upt_Suc)
  have b: "p ! n = levp s1 s2 i n" using n by (simp add: p del: upt_Suc)
  have c: "?row ! n = levp s1 s2 (Suc i) n"
    by (simp del: upt_Suc)
  have "fold (currentRow_push s1 s2 p i) [0..<Suc n] [Suc i] =
          currentRow_push s1 s2 p i n (fold (currentRow_push s1 s2 p i) [0..<n] [Suc i])"
    by simp
  also have "\<dots> = currentRow_push s1 s2 p i n ?row"
    by (simp only: IH)
  also have "\<dots> = ?row @ [levp s1 s2 (Suc i) (Suc n)]"
    unfolding currentRow_push_def Let_def a b c by simp
  also have "\<dots> = map (levp s1 s2 (Suc i)) [0..<Suc (Suc n)]"
    by simp
  finally show ?case .
qed

lemma nextRow_levp:
  "p = map (levp s1 s2 i) [0..<Suc (length s2)] \<Longrightarrow>
   nextRow s1 s2 i p = map (levp s1 s2 (Suc i)) [0..<Suc (length s2)]"
  unfolding nextRow_def using inner_rows[of p s1 s2 i "length s2"] by simp

lemma outer_rows:
  "fold (nextRow s1 s2) [0..<m] [0..<Suc (length s2)] = map (levp s1 s2 m) [0..<Suc (length s2)]"
proof (induction m)
  case 0
  show ?case by (simp add: map_idI del: upt_Suc)
next
  case (Suc m)
  have "fold (nextRow s1 s2) [0..<Suc m] [0..<Suc (length s2)] =
          nextRow s1 s2 m (fold (nextRow s1 s2) [0..<m] [0..<Suc (length s2)])"
    by simp
  also have "\<dots> = map (levp s1 s2 (Suc m)) [0..<Suc (length s2)]"
    by (rule nextRow_levp) (rule Suc.IH)
  finally show ?case .
qed

lemma levp_lev:
  "i \<le> length s1 \<Longrightarrow> j \<le> length s2 \<Longrightarrow> levp s1 s2 i j = lev (rev (take i s1)) (rev (take j s2))"
proof (induction s1 s2 i j rule: levp.induct)
  case (1 s1 s2 j)
  then show ?case by simp
next
  case (2 s1 s2 i)
  then show ?case by (simp add: take_Suc_conv_app_nth)
next
  case (3 s1 s2 i j)
  then show ?case by (simp add: take_Suc_conv_app_nth)
qed

lemma lev_Nil2: "lev s [] = length s"
  by (cases s) simp_all

lemma compareDistance_ge:
  "length s2 \<le> length s1 \<Longrightarrow> compareDistance s1 s2 = lev (rev s1) (rev s2)"
proof (cases "length s2 = 0")
  case True
  assume "length s2 \<le> length s1"
  with True show ?thesis by (subst compareDistance.simps) (simp add: lev_Nil2)
next
  case False
  assume "length s2 \<le> length s1"
  with False show ?thesis
    by (subst compareDistance.simps) (simp add: outer_rows levp_lev del: upt_Suc)
qed

lemma lev_sym: "lev s t = lev t s"
  by (induction s t rule: lev.induct) (simp_all add: lev_Nil2 min.commute min.left_commute)

lemma compareDistance_lev: "compareDistance s1 s2 = lev (rev s1) (rev s2)"
proof (cases "length s1 < length s2")
  case True
  then have "compareDistance s1 s2 = compareDistance s2 s1"
    by (subst compareDistance.simps) simp
  also have "\<dots> = lev (rev s2) (rev s1)" using True by (simp add: compareDistance_ge)
  finally show ?thesis by (simp add: lev_sym)
next
  case False
  then show ?thesis by (simp add: compareDistance_ge)
qed

lemma lev_Cons1: "lev (c # s) t \<le> Suc (lev s t)"
  by (cases t) (simp_all add: lev_Nil2)

lemma lev_Cons2: "lev s (d # t) \<le> Suc (lev s t)"
  by (cases s) simp_all

lemma lev_Cons_Cons: "lev (c # s) (d # t) \<le> Suc (lev s t)"
  by (simp add: min_le_iff_disj)

lemma le_Suc_min3: "x \<le> Suc a \<Longrightarrow> x \<le> Suc b \<Longrightarrow> x \<le> Suc c \<Longrightarrow> x \<le> Suc (min a (min b c))"
  by (simp add: min_def)

lemma lev_drop_head: "lev s t \<le> Suc (lev (c # s) t)"
proof (induction t)
  case Nil
  show ?case by (simp add: lev_Nil2)
next
  case (Cons d t)
  have eq: "lev (c # s) (d # t) =
      min (lev s (d # t) + 1) (min (lev (c # s) t + 1) (lev s t + (if c \<noteq> d then 1 else 0)))"
    by simp
  have "lev s (d # t) \<le> Suc (lev s t)" by (rule lev_Cons2)
  with Cons show ?case unfolding eq by (intro le_Suc_min3) simp_all
qed

lemma lev_subst_head: "lev (c # s) t \<le> Suc (lev (d # s) t)"
proof (induction t)
  case Nil
  show ?case by simp
next
  case (Cons e t)
  have eq: "lev (d # s) (e # t) =
      min (lev s (e # t) + 1) (min (lev (d # s) t + 1) (lev s t + (if d \<noteq> e then 1 else 0)))"
    by simp
  have 1: "lev (c # s) (e # t) \<le> Suc (lev (c # s) t)" by (rule lev_Cons2)
  have 2: "lev (c # s) (e # t) \<le> Suc (lev s (e # t))" by (rule lev_Cons1)
  have 3: "lev (c # s) (e # t) \<le> Suc (lev s t)" by (rule lev_Cons_Cons)
  show ?case unfolding eq
  proof (intro le_Suc_min3)
    show "lev (c # s) (e # t) \<le> Suc (lev s (e # t) + 1)" using 2 by linarith
    show "lev (c # s) (e # t) \<le> Suc (lev (d # s) t + 1)" using 1 Cons by linarith
    show "lev (c # s) (e # t) \<le> Suc (lev s t + (if d \<noteq> e then 1 else 0))" using 3 by linarith
  qed
qed

lemma lev_skip:
  assumes "\<And>t. lev s t \<le> Suc (lev s' t)"
  shows "lev (c # s) t \<le> Suc (lev (c # s') t)"
proof (induction t)
  case Nil
  from assms[of "[]"] show ?case by (simp add: lev_Nil2)
next
  case (Cons e t)
  have eq: "lev (c # s') (e # t) =
      min (lev s' (e # t) + 1) (min (lev (c # s') t + 1) (lev s' t + (if c \<noteq> e then 1 else 0)))"
    by simp
  have 1: "lev (c # s) (e # t) \<le> Suc (lev (c # s) t)" by (rule lev_Cons2)
  have 2: "lev (c # s) (e # t) \<le> Suc (lev s (e # t))" by (rule lev_Cons1)
  have 3: "lev (c # s) (e # t) \<le> lev s t + (if c \<noteq> e then 1 else 0)" by simp
  show ?case unfolding eq
  proof (intro le_Suc_min3)
    show "lev (c # s) (e # t) \<le> Suc (lev s' (e # t) + 1)" using 2 assms[of "e # t"] by linarith
    show "lev (c # s) (e # t) \<le> Suc (lev (c # s') t + 1)" using 1 Cons by linarith
    show "lev (c # s) (e # t) \<le> Suc (lev s' t + (if c \<noteq> e then 1 else 0))"
      using 3 assms[of t] by (simp split: if_splits)
  qed
qed

lemma edit1_lev: "edit1 s s' \<Longrightarrow> lev s t \<le> Suc (lev s' t)"
proof (induction arbitrary: t rule: edit1.induct)
  case (ins s c)
  show ?case by (rule lev_drop_head)
next
  case (del c s)
  show ?case by (rule lev_Cons1)
next
  case (sub c d s)
  show ?case by (rule lev_subst_head)
next
  case (skip s t' c)
  show ?case by (rule lev_skip) (rule skip.IH)
qed

lemma lev_same: "lev s s = 0"
  by (induction s) simp_all

lemma edits_lev: "(edit1 ^^ n) s t \<Longrightarrow> lev s t \<le> n"
proof (induction n arbitrary: s)
  case 0
  then show ?case by (simp add: lev_same)
next
  case (Suc n)
  from relpowp_Suc_D2[OF Suc.prems] obtain u where "edit1 s u" and "(edit1 ^^ n) u t"
    by blast
  with Suc.IH[of u] edit1_lev[of s u t] show ?case by simp
qed

lemma edits_skip: "(edit1 ^^ n) s t \<Longrightarrow> (edit1 ^^ n) (c # s) (c # t)"
proof (induction n arbitrary: t)
  case 0
  then show ?case by simp
next
  case (Suc n)
  then obtain u where "(edit1 ^^ n) s u" and "edit1 u t" by auto
  with Suc.IH[of u] show ?case by (auto intro: edit1.skip)
qed

lemma edits_ins_all: "(edit1 ^^ length t) [] t"
proof (induction t)
  case Nil show ?case by simp
next
  case (Cons c t)
  from edits_skip[OF Cons, of c] have "(edit1 ^^ length t) [c] (c # t)" .
  moreover have "edit1 [] [c]" by (rule edit1.ins)
  ultimately have "(edit1 ^^ Suc (length t)) [] (c # t)" by (rule relpowp_Suc_I2[rotated])
  then show ?case by simp
qed

lemma edits_del_all: "(edit1 ^^ length s) s []"
proof (induction s)
  case Nil show ?case by simp
next
  case (Cons c s)
  have "edit1 (c # s) s" by (rule edit1.del)
  then have "(edit1 ^^ Suc (length s)) (c # s) []" using Cons by (rule relpowp_Suc_I2)
  then show ?case by simp
qed

lemma lev_edits: "(edit1 ^^ lev s t) s t"
proof (induction s t rule: lev.induct)
  case (1 t)
  show ?case using edits_ins_all by simp
next
  case (2 c s)
  show ?case using edits_del_all[of "c # s"] by simp
next
  case (3 c s d t)
  have A: "(edit1 ^^ Suc (lev s (d # t))) (c # s) (d # t)"
    by (rule relpowp_Suc_I2[OF edit1.del "3.IH"(1)])
  have B: "(edit1 ^^ Suc (lev (c # s) t)) (c # s) (d # t)"
    using "3.IH"(2) edit1.ins[of t d] by auto
  have C: "(edit1 ^^ (lev s t + (if c \<noteq> d then 1 else 0))) (c # s) (d # t)"
  proof (cases "c = d")
    case True
    with edits_skip[OF "3.IH"(3), of c] show ?thesis by simp
  next
    case False
    then have "edit1 (c # t) (d # t)" by (rule edit1.sub)
    with edits_skip[OF "3.IH"(3), of c] False show ?thesis by auto
  qed
  show ?case using A B C by (simp add: min_def)
qed

lemma lev_edit_distance: "lev s t = edit_distance s t"
  unfolding edit_distance_def
  by (rule Least_equality[symmetric]) (auto intro: lev_edits edits_lev)

lemma edit1_sym: "edit1 s t \<Longrightarrow> edit1 t s"
  by (induction rule: edit1.induct) (auto intro: edit1.intros)

lemma edit1_snoc: "edit1 s t \<Longrightarrow> edit1 (s @ [c]) (t @ [c])"
  by (induction rule: edit1.induct) (auto intro: edit1.intros)

lemma edit1_ins_end: "edit1 s (s @ [c])"
  by (induction s) (auto intro: edit1.intros)

lemma edit1_del_end: "edit1 (s @ [c]) s"
  by (induction s) (auto intro: edit1.intros)

lemma edit1_sub_end: "c \<noteq> d \<Longrightarrow> edit1 (s @ [c]) (s @ [d])"
  by (induction s) (auto intro: edit1.intros)

lemma edit1_rev: "edit1 s t \<Longrightarrow> edit1 (rev s) (rev t)"
  by (induction rule: edit1.induct)
    (auto intro: edit1_snoc edit1_ins_end edit1_del_end edit1_sub_end)

lemma edits_rev: "(edit1 ^^ n) s t \<Longrightarrow> (edit1 ^^ n) (rev s) (rev t)"
proof (induction n arbitrary: t)
  case 0
  then show ?case by simp
next
  case (Suc n)
  then obtain u where "(edit1 ^^ n) s u" and "edit1 u t" by auto
  with Suc.IH[of u] show ?case by (auto intro: edit1_rev)
qed

lemma lev_rev: "lev (rev s) (rev t) = lev s t"
proof (rule antisym)
  show "lev (rev s) (rev t) \<le> lev s t"
    by (rule edits_lev) (rule edits_rev, rule lev_edits)
  have "(edit1 ^^ lev (rev s) (rev t)) (rev (rev s)) (rev (rev t))"
    by (rule edits_rev) (rule lev_edits)
  then show "lev s t \<le> lev (rev s) (rev t)"
    by (simp add: edits_lev)
qed

lemma lev_zero: "lev s t = 0 \<longleftrightarrow> s = t"
  using lev_edits[of s t] by (auto simp: lev_same)

text \<open>
  Claim C6. For all strings \<open>a\<close> and \<open>b\<close>, \<^verbatim>\<open>compareDistance(a, b)\<close> is the classic
  Levenshtein distance: the minimum number of single-character insertions, deletions and
  substitutions that transform \<open>a\<close> into \<open>b\<close>. It is symmetric in spite of the swap of
  the operands, it is zero on equal strings, and it is zero only on equal strings.
\<close>

theorem compareDistance_edit_distance:
  fixes a b :: "'a list"
  shows "compareDistance a b = edit_distance a b
   \<and> compareDistance a b = compareDistance b a
   \<and> compareDistance a a = 0
   \<and> (compareDistance a b = 0 \<longleftrightarrow> a = b)"
proof -
  have eq: "compareDistance s t = lev s t" for s t :: "'a list"
    by (simp add: compareDistance_lev lev_rev)
  have "compareDistance a b = edit_distance a b"
    by (simp only: eq lev_edit_distance)
  moreover have "compareDistance a b = compareDistance b a"
    unfolding eq by (rule lev_sym)
  moreover have "compareDistance a a = 0"
    unfolding eq by (rule lev_same)
  moreover have "compareDistance a b = 0 \<longleftrightarrow> a = b"
    unfolding eq by (rule lev_zero)
  ultimately show ?thesis by blast
qed



theorem compareDistance_edit_distance_witness:
  "compareDistance ''adel'' ''adele'' = 1 \<and> edit_distance ''adel'' ''adele'' = 1
   \<and> compareDistance ''adele'' ''adel'' = 1 \<and> compareDistance ''adel'' ''adel'' = 0
   \<and> ''adel'' \<noteq> ''adele''"
proof -
  have v: "compareDistance ''adel'' ''adele'' = 1" by code_simp
  from compareDistance_edit_distance[of "''adel''" "''adele''"]
  have "compareDistance ''adel'' ''adele'' = edit_distance ''adel'' ''adele''"
    and "compareDistance ''adel'' ''adele'' = compareDistance ''adele'' ''adel''"
    and "compareDistance ''adel'' ''adel'' = 0"
    by blast+
  with v show ?thesis by simp
qed

section \<open>Properties of the Spotify endpoint\<close>

lemma random_pick_in: "xs \<noteq> [] \<Longrightarrow> fst (random_pick xs g) \<in> set xs"
  using random_below_less[of "length xs" g]
  by (auto simp: random_pick_def split: prod.splits)

subsection \<open>The genre loop\<close>

lemma selectedGenres_loop_inv:
  "pool \<noteq> [] \<Longrightarrow> distinct acc \<Longrightarrow> set acc \<subseteq> set pool \<Longrightarrow> length acc \<le> i \<Longrightarrow>
     distinct (fst (selectedGenres_loop pool i acc g))
     \<and> set (fst (selectedGenres_loop pool i acc g)) \<subseteq> set pool
     \<and> length acc \<le> length (fst (selectedGenres_loop pool i acc g))
     \<and> length (fst (selectedGenres_loop pool i acc g)) \<le> max i 4"
proof (induction pool i acc g rule: selectedGenres_loop.induct)
  case (1 pool i acc g)
  have b: "fst (random_below 3 g) < 3" by (rule random_below_less) simp
  show ?case
  proof (cases "i < fst (random_below 3 g) + 2")
    case False
    then show ?thesis using 1(3-5) by (subst (1 2 3 4) selectedGenres_loop.simps) simp
  next
    case True
    obtain x g' where p: "random_pick pool (snd (random_below 3 g)) = (x, g')"
      by (cases "random_pick pool (snd (random_below 3 g))")
    have x: "x \<in> set pool"
      using random_pick_in[OF 1(2), of "snd (random_below 3 g)"] p by simp
    let ?acc = "if x \<notin> set acc then acc @ [x] else acc"
    have IH: "distinct (fst (selectedGenres_loop pool (i + 1) ?acc g'))
     \<and> set (fst (selectedGenres_loop pool (i + 1) ?acc g')) \<subseteq> set pool
     \<and> length ?acc \<le> length (fst (selectedGenres_loop pool (i + 1) ?acc g'))
     \<and> length (fst (selectedGenres_loop pool (i + 1) ?acc g')) \<le> max (i + 1) 4"
      using 1(2-5) x by (intro 1(1)[OF True p[symmetric]]) auto
    have eq: "selectedGenres_loop pool i acc g = selectedGenres_loop pool (i + 1) ?acc g'"
      using True p by (subst selectedGenres_loop.simps) simp
    have "i < 4" using True b by simp
    then show ?thesis unfolding eq using IH by (auto split: if_splits)
  qed
qed

lemma selectedGenres_loop_first:
  "pool \<noteq> [] \<Longrightarrow> 1 \<le> length (fst (selectedGenres_loop pool 0 [] g))"
proof -
  assume pool: "pool \<noteq> []"
  have b: "0 < fst (random_below 3 g) + 2" by simp
  obtain x g' where p: "random_pick pool (snd (random_below 3 g)) = (x, g')"
    by (cases "random_pick pool (snd (random_below 3 g))")
  have x: "x \<in> set pool"
    using random_pick_in[OF pool, of "snd (random_below 3 g)"] p by simp
  have eq: "selectedGenres_loop pool 0 [] g = selectedGenres_loop pool 1 [x] g'"
    using p by (subst selectedGenres_loop.simps) simp
  from selectedGenres_loop_inv[OF pool, of "[x]" 1 g'] x
  show ?thesis unfolding eq by simp
qed

lemma genres_pool: "pool \<in> set genres \<Longrightarrow> pool \<noteq> []"
  by (auto simp: genres_def)

lemma selectedGenres_of_props:
  "\<exists>pool \<in> set genres. set (fst (selectedGenres_of g)) \<subseteq> set pool
     \<and> distinct (fst (selectedGenres_of g))
     \<and> 1 \<le> length (fst (selectedGenres_of g)) \<and> length (fst (selectedGenres_of g)) \<le> 4"
proof -
  obtain pool g1 where p: "random_pick genres g = (pool, g1)"
    by (cases "random_pick genres g")
  have "genres \<noteq> []" by (simp add: genres_def)
  from random_pick_in[OF this, of g] p have pool: "pool \<in> set genres" by simp
  then have ne: "pool \<noteq> []" by (rule genres_pool)
  have eq: "selectedGenres_of g = selectedGenres_loop pool 0 [] g1"
    by (simp add: selectedGenres_of_def p)
  from selectedGenres_loop_inv[OF ne, of "[]" 0 g1] selectedGenres_loop_first[OF ne, of g1] pool
  show ?thesis unfolding eq by auto
qed

subsection \<open>The album loop\<close>

lemma albums_loop_length:
  "length albums = i \<Longrightarrow> i \<le> 3 \<Longrightarrow>
     max 2 i \<le> length (fst (albums_loop fn i albums g)) \<and> length (fst (albums_loop fn i albums g)) \<le> 3"
proof (induction fn i albums g rule: albums_loop.induct)
  case (1 fn i albums g)
  have b: "fst (random_below 2 g) < 2" by (rule random_below_less) simp
  show ?case
  proof (cases "i < fst (random_below 2 g) + 2")
    case False
    then show ?thesis using 1(2,3) by (subst (1 2) albums_loop.simps) simp
  next
    case True
    obtain a g' where p: "album_of fn i (snd (random_below 2 g)) = (a, g')"
      by (cases "album_of fn i (snd (random_below 2 g))")
    have eq: "albums_loop fn i albums g = albums_loop fn (i + 1) (albums @ [a]) g'"
      using True p by (subst albums_loop.simps) simp
    have "i < 3" using True b by simp
    with 1(1)[OF True p[symmetric]] 1(2,3) show ?thesis unfolding eq by auto
  qed
qed

lemma album_of_named: "\<exists>s. get (fst (album_of fn i g)) ''name'' = JStr s"
  by (simp add: album_of_def Let_def split: prod.splits)

lemma albums_loop_named:
  "\<forall>a \<in> set albums. \<exists>s. get a ''name'' = JStr s \<Longrightarrow>
   \<forall>a \<in> set (fst (albums_loop fn i albums g)). \<exists>s. get a ''name'' = JStr s"
proof (induction fn i albums g rule: albums_loop.induct)
  case (1 fn i albums g)
  show ?case
  proof (cases "i < fst (random_below 2 g) + 2")
    case False
    then show ?thesis using 1(2) by (subst albums_loop.simps) simp
  next
    case True
    obtain a g' where p: "album_of fn i (snd (random_below 2 g)) = (a, g')"
      by (cases "album_of fn i (snd (random_below 2 g))")
    have eq: "albums_loop fn i albums g = albums_loop fn (i + 1) (albums @ [a]) g'"
      using True p by (subst albums_loop.simps) simp
    have "\<exists>s. get a ''name'' = JStr s"
      using album_of_named[of fn i "snd (random_below 2 g)"] p by simp
    with 1(1)[OF True p[symmetric]] 1(2) show ?thesis unfolding eq by auto
  qed
qed

subsection \<open>The track loop\<close>

lemma track_of_album:
  "albums \<noteq> [] \<Longrightarrow> \<exists>a \<in> set albums. get (fst (track_of fn albums g)) ''album'' = get a ''name''"
proof -
  assume ne: "albums \<noteq> []"
  obtain a g1 where p: "random_pick albums g = (a, g1)" by (cases "random_pick albums g")
  from random_pick_in[OF ne, of g] p have "a \<in> set albums" by simp
  moreover have "get (fst (track_of fn albums g)) ''album'' = get a ''name''"
    by (simp add: track_of_def p split: prod.splits)
  ultimately show ?thesis by blast
qed

lemma topTracks_loop_props:
  "albums \<noteq> [] \<Longrightarrow> length tracks = i \<Longrightarrow> i \<le> 5 \<Longrightarrow>
   \<forall>t \<in> set tracks. \<exists>a \<in> set albums. get t ''album'' = get a ''name'' \<Longrightarrow>
   length (fst (topTracks_loop fn albums i tracks g)) = 5
   \<and> (\<forall>t \<in> set (fst (topTracks_loop fn albums i tracks g)). \<exists>a \<in> set albums. get t ''album'' = get a ''name'')"
proof (induction fn albums i tracks g rule: topTracks_loop.induct)
  case (1 fn albums i tracks g)
  show ?case
  proof (cases "i < 5")
    case False
    then show ?thesis using 1(3-5) by (subst (1 2) topTracks_loop.simps) simp
  next
    case True
    obtain t g' where p: "track_of fn albums g = (t, g')" by (cases "track_of fn albums g")
    have eq: "topTracks_loop fn albums i tracks g = topTracks_loop fn albums (i + 1) (tracks @ [t]) g'"
      using True p by (subst topTracks_loop.simps) simp
    have "\<exists>a \<in> set albums. get t ''album'' = get a ''name''"
      using track_of_album[OF 1(2), of fn g] p by simp
    with 1(1)[OF True p[symmetric]] 1(2-5) True show ?thesis unfolding eq by auto
  qed
qed

subsection \<open>Object literals and the data set\<close>

lemma map_of_set_prop: "map_of (set_prop acc kv) = (map_of acc)(fst kv \<mapsto> snd kv)"
  by (induction acc kv rule: set_prop.induct) (auto simp: fun_eq_iff)

lemma map_of_fold_set_prop:
  "map_of (fold (\<lambda>kv acc. set_prop acc kv) kvs acc) = map_of acc ++ map_of (rev kvs)"
proof (induction kvs arbitrary: acc)
  case Nil
  show ?case by simp
next
  case (Cons kv kvs)
  show ?case
    by (cases kv) (simp add: Cons map_of_set_prop map_add_def fun_eq_iff split: option.splits)
qed

lemma get_object_literal:
  "get (object_literal kvs) k = (case map_of (rev kvs) k of Some v \<Rightarrow> v | None \<Rightarrow> JUndefined)"
  by (simp add: object_literal_def map_of_fold_set_prop)

lemmas known_defs = known_drake_def known_adele_def known_justinbieber_def
  known_spotifycharts_def known_spotifymaps_def known_weeknd_def known_theweeknd_def
  known_beyonce_def known_badpaddy_def known_spotify_def known_bts_def

lemma known_keys:
  "map_of knownProfiles k = Some p \<Longrightarrow>
     map_of (own_props p) ''simulated'' = None \<and> distinct (map fst (own_props p))
     \<and> (\<exists>s. map_of (own_props p) ''name'' = Some (JStr s))
     \<and> map_of (own_props p) ''username'' = None
     \<and> map_of (own_props p) ''external_url'' = None
     \<and> map_of (own_props p) ''note'' = None
     \<and> is_object p"
  unfolding knownProfiles_def
  by (auto simp: known_defs split: if_splits)

subsection \<open>The branches of the Spotify handler\<close>

lemma body_res_json [simp]: "body (res_json v) = v" "status (res_json v) = 200"
  by (simp_all add: res_json_def)

lemma map_of_rev_distinct: "distinct (map fst kvs) \<Longrightarrow> map_of (rev kvs) = map_of kvs"
  by (subst map_of_inject_set) (simp_all add: distinct_map)

lemma map_of_rev_None: "map_of (rev kvs) k = None \<longleftrightarrow> map_of kvs k = None"
  by (simp add: map_of_eq_None_iff)

lemma knownProfiles_at_truthy:
  "truthy (knownProfiles_at n) \<Longrightarrow>
     (\<exists>p. map_of knownProfiles n = Some p \<and> knownProfiles_at n = p) \<or> knownProfiles_at n = JObj []"
  by (auto simp: knownProfiles_at_def split: option.splits if_splits)

lemma knownProfiles_at_key:
  "k \<in> set knownProfiles_keys \<Longrightarrow> \<exists>p. map_of knownProfiles k = Some p \<and> knownProfiles_at k = p"
proof -
  assume "k \<in> set knownProfiles_keys"
  then have "k \<in> fst ` set knownProfiles" by (simp add: knownProfiles_keys_def)
  then obtain p where "map_of knownProfiles k = Some p"
    by (metis domIff dom_map_of_conv_image_fst not_None_eq)
  then show ?thesis by (simp add: knownProfiles_at_def)
qed

lemma known_truthy: "map_of knownProfiles k = Some p \<Longrightarrow> truthy p"
  using known_keys[of k p] by (cases p) simp_all

lemma closeMatches_subset: "set (closeMatches n) \<subseteq> set knownProfiles_keys"
  by (auto simp: closeMatches_def)

lemma closeMatches_first:
  "closeMatches n \<noteq> [] \<Longrightarrow> closeMatches n ! 0 \<in> set knownProfiles_keys"
  using closeMatches_subset[of n] by (cases "closeMatches n") auto

lemma exact_not_simulated:
  assumes "truthy (knownProfiles_at n)"
  shows "exists_of (exact_match_response n) = JBool True"
    and "get (profile_of (exact_match_response n)) ''simulated'' = JUndefined"
    and "is_object (profile_of (exact_match_response n))"
proof -
  show "exists_of (exact_match_response n) = JBool True"
    by (simp add: exact_match_response_def exists_of_def Let_def)
  show "is_object (profile_of (exact_match_response n))"
    by (simp add: exact_match_response_def profile_of_def Let_def object_literal_def)
  from knownProfiles_at_truthy[OF assms]
  have "map_of (own_props (knownProfiles_at n)) ''simulated'' = None"
    using known_keys by auto
  then have "map_of (rev (own_props (knownProfiles_at n))) ''simulated'' = None"
    by (simp only: map_of_rev_None)
  then show "get (profile_of (exact_match_response n)) ''simulated'' = JUndefined"
    by (simp add: exact_match_response_def profile_of_def Let_def get_object_literal map_add_def)
qed

lemma close_match_props:
  assumes "k \<in> set knownProfiles_keys"
  shows "exists_of (close_match_response u k) = JBool True"
    and "get (profile_of (close_match_response u k)) ''simulated'' = JUndefined"
    and "is_object (profile_of (close_match_response u k))"
    and "get (profile_of (close_match_response u k)) ''name'' = get (knownProfiles_at k) ''name''"
    and "get (profile_of (close_match_response u k)) ''username'' = JStr k"
    and "get (profile_of (close_match_response u k)) ''note'' =
           JStr (''Exact match '' @ [CHR 0x27] @ u @ [CHR 0x27]
                    @ '' not found, showing results for '' @ [CHR 0x27]
                    @ template_text (get (knownProfiles_at k) ''name'') @ [CHR 0x27] @ '' instead.'')"
    and "key \<notin> {''username'', ''external_url'', ''note''} \<Longrightarrow>
           get (profile_of (close_match_response u k)) key = get (knownProfiles_at k) key"
proof -
  from knownProfiles_at_key[OF assms] obtain p where
    p: "map_of knownProfiles k = Some p" "knownProfiles_at k = p" by blast
  from known_keys[OF p(1)] obtain kvs s where
    kvs: "p = JObj kvs" "map_of kvs ''simulated'' = None" "distinct (map fst kvs)"
      "map_of kvs ''name'' = Some (JStr s)" "map_of kvs ''username'' = None"
      "map_of kvs ''external_url'' = None" "map_of kvs ''note'' = None"
    by (cases p) auto
  have rev: "map_of (rev kvs) = map_of kvs"
    using kvs(3) by (rule map_of_rev_distinct)
  show "exists_of (close_match_response u k) = JBool True"
    by (simp add: close_match_response_def exists_of_def Let_def)
  show "is_object (profile_of (close_match_response u k))"
    by (simp add: close_match_response_def profile_of_def Let_def object_literal_def)
  show "get (profile_of (close_match_response u k)) ''simulated'' = JUndefined"
    by (simp add: close_match_response_def profile_of_def Let_def get_object_literal p kvs rev map_add_def)
  show "get (profile_of (close_match_response u k)) ''name'' = get (knownProfiles_at k) ''name''"
    by (simp add: close_match_response_def profile_of_def Let_def get_object_literal p kvs rev map_add_def)
  show "get (profile_of (close_match_response u k)) ''username'' = JStr k"
    by (simp add: close_match_response_def profile_of_def Let_def get_object_literal p kvs rev map_add_def)
  show "get (profile_of (close_match_response u k)) ''note'' =
           JStr (''Exact match '' @ [CHR 0x27] @ u @ [CHR 0x27]
                    @ '' not found, showing results for '' @ [CHR 0x27]
                    @ template_text (get (knownProfiles_at k) ''name'') @ [CHR 0x27] @ '' instead.'')"
    by (simp add: close_match_response_def profile_of_def Let_def get_object_literal p kvs rev map_add_def)
  show "get (profile_of (close_match_response u k)) key = get (knownProfiles_at k) key"
    if "key \<notin> {''username'', ''external_url'', ''note''}"
    using that
    by (simp add: close_match_response_def profile_of_def Let_def get_object_literal p kvs(1) rev
        map_add_def split: option.splits)
qed

lemma artist_response_props:
  "exists_of (artist_response u n g) = JBool True
   \<and> get (profile_of (artist_response u n g)) ''simulated'' = JBool True
   \<and> get (profile_of (artist_response u n g)) ''type'' = JStr ''artist''
   \<and> length (elements (get (profile_of (artist_response u n g)) ''top_tracks'')) = 5
   \<and> 2 \<le> length (elements (get (profile_of (artist_response u n g)) ''albums''))
   \<and> length (elements (get (profile_of (artist_response u n g)) ''albums'')) \<le> 3
   \<and> (\<forall>t \<in> set (elements (get (profile_of (artist_response u n g)) ''top_tracks'')).
        \<exists>a \<in> set (elements (get (profile_of (artist_response u n g)) ''albums'')).
          get t ''album'' = get a ''name'')
   \<and> (\<forall>a \<in> set (elements (get (profile_of (artist_response u n g)) ''albums'')).
        \<exists>s. get a ''name'' = JStr s)
   \<and> (\<exists>gs. get (profile_of (artist_response u n g)) ''genres'' = JArr (map JStr gs)
         \<and> distinct gs \<and> 1 \<le> length gs \<and> length gs \<le> 4
         \<and> (\<exists>pool \<in> set genres. set gs \<subseteq> set pool))"
proof -
  let ?fn = "formattedName_artist u"
  obtain gs g1 where gs: "selectedGenres_of g = (gs, g1)" by (cases "selectedGenres_of g")
  obtain albums g2 where al: "albums_loop ?fn 0 [] g1 = (albums, g2)"
    by (cases "albums_loop ?fn 0 [] g1")
  obtain tracks g3 where tr: "topTracks_loop ?fn albums 0 [] g2 = (tracks, g3)"
    by (cases "topTracks_loop ?fn albums 0 [] g2")
  from albums_loop_length[of "[]" 0 ?fn g1] al
  have len: "2 \<le> length albums" "length albums \<le> 3" by simp_all
  then have ne: "albums \<noteq> []" by auto
  from albums_loop_named[of "[]" ?fn 0 g1] al
  have named: "\<forall>a \<in> set albums. \<exists>s. get a ''name'' = JStr s" by simp
  from topTracks_loop_props[OF ne, of "[]" 0 ?fn g2] tr
  have tracks: "length tracks = 5"
    "\<forall>t \<in> set tracks. \<exists>a \<in> set albums. get t ''album'' = get a ''name''" by simp_all
  from selectedGenres_of_props[of g] gs
  have genres: "distinct gs" "1 \<le> length gs" "length gs \<le> 4" "\<exists>pool \<in> set genres. set gs \<subseteq> set pool"
    by auto
  have prof: "profile_of (artist_response u n g) = JObj [
             (''username'', JStr n),
             (''name'', JStr ?fn),
             (''followers'', JNum (real (fst (random_below 50000 g3) + 100))),
             (''popularity'', JNum (real (fst (random_below 80 (snd (random_below 50000 g3))) + 20))),
             (''monthly_listeners'', JNum (real (fst (random_below 80000 (snd (random_below 80 (snd (random_below 50000 g3))))) + 1000))),
             (''image_url'', JStr (fst (random_at 5 artist_images (snd (random_below 80000 (snd (random_below 80 (snd (random_below 50000 g3))))))))),
             (''type'', JStr ''artist''),
             (''genres'', JArr (map JStr gs)),
             (''top_tracks'', JArr tracks),
             (''albums'', JArr albums),
             (''simulated'', JBool True),
             (''external_url'', JStr (''https://open.spotify.com/artist/'' @ n))]"
    by (simp add: artist_response_def profile_of_def Let_def gs al tr split: prod.splits)
  have ex: "exists_of (artist_response u n g) = JBool True"
    by (simp add: artist_response_def exists_of_def Let_def split: prod.splits)
  have "\<exists>gs'. get (profile_of (artist_response u n g)) ''genres'' = JArr (map JStr gs')
         \<and> distinct gs' \<and> 1 \<le> length gs' \<and> length gs' \<le> 4
         \<and> (\<exists>pool \<in> set genres. set gs' \<subseteq> set pool)"
    unfolding prof using genres by (intro exI[of _ gs]) simp
  moreover have "exists_of (artist_response u n g) = JBool True
   \<and> get (profile_of (artist_response u n g)) ''simulated'' = JBool True
   \<and> get (profile_of (artist_response u n g)) ''type'' = JStr ''artist''
   \<and> length (elements (get (profile_of (artist_response u n g)) ''top_tracks'')) = 5
   \<and> 2 \<le> length (elements (get (profile_of (artist_response u n g)) ''albums''))
   \<and> length (elements (get (profile_of (artist_response u n g)) ''albums'')) \<le> 3
   \<and> (\<forall>t \<in> set (elements (get (profile_of (artist_response u n g)) ''top_tracks'')).
        \<exists>a \<in> set (elements (get (profile_of (artist_response u n g)) ''albums'')).
          get t ''album'' = get a ''name'')
   \<and> (\<forall>a \<in> set (elements (get (profile_of (artist_response u n g)) ''albums'')).
        \<exists>s. get a ''name'' = JStr s)"
    unfolding prof ex using len named tracks by simp
  ultimately show ?thesis by blast
qed

lemma user_response_props:
  "exists_of (user_response u n g) = JBool True
   \<and> get (profile_of (user_response u n g)) ''type'' = JStr ''user''
   \<and> get (profile_of (user_response u n g)) ''simulated'' = JBool True
   \<and> is_object (profile_of (user_response u n g))"
  by (simp add: user_response_def exists_of_def profile_of_def Let_def split: prod.splits)

lemma spotify_cases:
  "(truthy (knownProfiles_at (normalize u)) \<and> spotify u g = exact_match_response (normalize u))
   \<or> (\<not> truthy (knownProfiles_at (normalize u)) \<and> closeMatches (normalize u) \<noteq> []
        \<and> spotify u g = close_match_response u (closeMatches (normalize u) ! 0))
   \<or> (\<not> truthy (knownProfiles_at (normalize u)) \<and> closeMatches (normalize u) = []
        \<and> likely_artist u \<and> spotify u g = artist_response u (normalize u) g)
   \<or> (\<not> truthy (knownProfiles_at (normalize u)) \<and> closeMatches (normalize u) = []
        \<and> \<not> likely_artist u \<and> isLikelyUser u \<and> spotify u g = user_response u (normalize u) g)
   \<or> (\<not> truthy (knownProfiles_at (normalize u)) \<and> closeMatches (normalize u) = []
        \<and> \<not> likely_artist u \<and> \<not> isLikelyUser u \<and> spotify u g = not_found_omitted)"
  by (simp add: spotify_def Let_def not_found_omitted_def)

lemma zz_artist:
  "spotify ''zz-top band'' g = artist_response ''zz-top band'' ''zz-topband'' g"
proof -
  have a: "normalize ''zz-top band'' = ''zz-topband''" by code_simp
  have b: "closeMatches ''zz-topband'' = []" by code_simp
  have c: "\<not> truthy (knownProfiles_at ''zz-topband'')" by code_simp
  have d: "likely_artist ''zz-top band''" by code_simp
  show ?thesis using spotify_cases[of "''zz-top band''" g] a b c d by simp
qed

text \<open>
  Claim C4. Every profile that the Spotify endpoint answers with \<^verbatim>\<open>simulated: true\<close> and
  \<^verbatim>\<open>type: 'artist'\<close> has exactly 5 entries in \<^verbatim>\<open>top_tracks\<close> and 2 or 3 entries in
  \<^verbatim>\<open>albums\<close>; the \<^verbatim>\<open>album\<close> of every track is the \<^verbatim>\<open>name\<close> of one of these albums, and
  every album name is a string.
\<close>

theorem spotify_simulated_artist:
  assumes "get (profile_of (spotify username g)) ''simulated'' = JBool True"
    and "get (profile_of (spotify username g)) ''type'' = JStr ''artist''"
  shows "length (elements (get (profile_of (spotify username g)) ''top_tracks'')) = 5
   \<and> 2 \<le> length (elements (get (profile_of (spotify username g)) ''albums''))
   \<and> length (elements (get (profile_of (spotify username g)) ''albums'')) \<le> 3
   \<and> (\<forall>t \<in> set (elements (get (profile_of (spotify username g)) ''top_tracks'')).
        \<exists>a \<in> set (elements (get (profile_of (spotify username g)) ''albums'')).
          get t ''album'' = get a ''name'')
   \<and> (\<forall>a \<in> set (elements (get (profile_of (spotify username g)) ''albums'')).
        \<exists>s. get a ''name'' = JStr s)"
proof -
  consider
    (exact) "truthy (knownProfiles_at (normalize username))"
      "spotify username g = exact_match_response (normalize username)"
  | (close) "closeMatches (normalize username) \<noteq> []"
      "spotify username g = close_match_response username (closeMatches (normalize username) ! 0)"
  | (artist) "spotify username g = artist_response username (normalize username) g"
  | (user) "spotify username g = user_response username (normalize username) g"
  | (none) "spotify username g = not_found_omitted"
    using spotify_cases[of username g] by blast
  then show ?thesis
  proof cases
    case exact
    with exact_not_simulated(2)[OF exact(1)] assms(1) show ?thesis by simp
  next
    case close
    with close_match_props(2)[OF closeMatches_first[OF close(1)], of username] assms(1)
    show ?thesis by simp
  next
    case artist
    show ?thesis unfolding artist using artist_response_props[of username "normalize username" g]
      by blast
  next
    case user
    with user_response_props[of username "normalize username" g] assms(2) show ?thesis by simp
  next
    case none
    with assms(1) show ?thesis by (simp add: not_found_omitted_def profile_of_def)
  qed
qed

theorem spotify_simulated_artist_witness:
  "get (profile_of (spotify ''zz-top band'' (const_rng zero01))) ''simulated'' = JBool True
   \<and> get (profile_of (spotify ''zz-top band'' (const_rng zero01))) ''type'' = JStr ''artist''
   \<and> length (elements (get (profile_of (spotify ''zz-top band'' (const_rng zero01))) ''top_tracks'')) = 5
   \<and> 2 \<le> length (elements (get (profile_of (spotify ''zz-top band'' (const_rng zero01))) ''albums''))
   \<and> length (elements (get (profile_of (spotify ''zz-top band'' (const_rng zero01))) ''albums'')) \<le> 3"
proof -
  have a: "get (profile_of (spotify ''zz-top band'' (const_rng zero01))) ''simulated'' = JBool True"
    and b: "get (profile_of (spotify ''zz-top band'' (const_rng zero01))) ''type'' = JStr ''artist''"
    unfolding zz_artist using artist_response_props[of "''zz-top band''" "''zz-topband''" "const_rng zero01"]
    by simp_all
  from spotify_simulated_artist[OF a b] a b show ?thesis by blast
qed

subsection \<open>Close matches\<close>

lemma proto_no_close: "list_all (\<lambda>p. closeMatches p = []) Object_prototype_names"
  by code_simp

lemma find_filter_first:
  "find P xs = Some k \<Longrightarrow> filter P xs \<noteq> [] \<and> filter P xs ! 0 = k"
  by (induction xs) (auto split: if_splits)

lemma close_match_not_truthy:
  assumes "n \<notin> set knownProfiles_keys" and "closeMatches n \<noteq> []"
  shows "\<not> truthy (knownProfiles_at n)"
proof
  assume "truthy (knownProfiles_at n)"
  moreover have "map_of knownProfiles n = None"
    using assms(1) by (simp add: knownProfiles_keys_def map_of_eq_None_iff)
  ultimately have "n \<in> set Object_prototype_names"
    by (simp add: knownProfiles_at_def split: if_splits)
  with proto_no_close have "closeMatches n = []"
    by (simp add: list_all_iff)
  with assms(2) show False by contradiction
qed

text \<open>
  Claim C5. When the normalized query is no key of the data set and some key is within
  edit distance 2, the first such key in the order of the data set is substituted: the
  answer has \<^verbatim>\<open>exists: true\<close>, the substituted key as \<^verbatim>\<open>username\<close>, every property of the
  substituted record, and a \<^verbatim>\<open>note\<close> that quotes the original query and the \<^verbatim>\<open>name\<close> of
  that record. The witness is the query \<^verbatim>\<open>adel\<close>, at distance 1 from \<^verbatim>\<open>adele\<close>.
\<close>

theorem spotify_close_match:
  assumes "normalize username \<notin> set knownProfiles_keys"
    and "find (\<lambda>name. compareDistance (normalize username) name \<le> 2) knownProfiles_keys = Some k"
  shows "spotify username g = close_match_response username k
    \<and> status (spotify username g) = 200
    \<and> exists_of (spotify username g) = JBool True
    \<and> get (profile_of (spotify username g)) ''username'' = JStr k
    \<and> get (profile_of (spotify username g)) ''name'' = get (knownProfiles_at k) ''name''
    \<and> get (profile_of (spotify username g)) ''note'' =
         JStr (''Exact match '' @ [CHR 0x27] @ username @ [CHR 0x27]
               @ '' not found, showing results for '' @ [CHR 0x27]
               @ template_text (get (knownProfiles_at k) ''name'') @ [CHR 0x27] @ '' instead.'')
    \<and> (\<forall>key. key \<notin> {''username'', ''external_url'', ''note''} \<longrightarrow>
          get (profile_of (spotify username g)) key = get (knownProfiles_at k) key)"
proof -
  from find_filter_first[OF assms(2)]
  have cm: "closeMatches (normalize username) \<noteq> []" "closeMatches (normalize username) ! 0 = k"
    by (simp_all add: closeMatches_def)
  from close_match_not_truthy[OF assms(1) cm(1)]
  have nt: "\<not> truthy (knownProfiles_at (normalize username))" .
  have eq: "spotify username g = close_match_response username k"
    using spotify_cases[of username g] nt cm by auto
  have k: "k \<in> set knownProfiles_keys"
    using closeMatches_first[OF cm(1)] cm(2) by simp
  have "status (close_match_response username k) = 200"
    by (simp add: close_match_response_def Let_def)
  with close_match_props(1-6)[OF k, of username] close_match_props(7)[OF k, of _ username]
  show ?thesis
    unfolding eq by simp
qed

theorem spotify_close_match_witness:
  "normalize ''adel'' \<notin> set knownProfiles_keys
   \<and> compareDistance ''adel'' ''adele'' = 1
   \<and> exists_of (spotify ''adel'' (const_rng zero01)) = JBool True
   \<and> get (profile_of (spotify ''adel'' (const_rng zero01))) ''username'' = JStr ''adele''
   \<and> get (profile_of (spotify ''adel'' (const_rng zero01))) ''name'' = JStr ''Adele''
   \<and> get (profile_of (spotify ''adel'' (const_rng zero01))) ''note'' =
        JStr (''Exact match '' @ [CHR 0x27] @ ''adel'' @ [CHR 0x27]
              @ '' not found, showing results for '' @ [CHR 0x27] @ ''Adele'' @ [CHR 0x27]
              @ '' instead.'')
   \<and> get (profile_of (spotify ''adel'' (const_rng zero01))) ''followers'' = JNum 49523685"
proof -
  have a: "normalize ''adel'' \<notin> set knownProfiles_keys" by code_simp
  have b: "find (\<lambda>name. compareDistance (normalize ''adel'') name \<le> 2) knownProfiles_keys = Some ''adele''"
    by code_simp
  have c: "get (knownProfiles_at ''adele'') ''name'' = JStr ''Adele''" by code_simp
  have d: "compareDistance ''adel'' ''adele'' = 1" by code_simp
  have e: "get (knownProfiles_at ''adele'') ''followers'' = JNum 49523685" by code_simp
  have f: "''followers'' \<notin> {''username'', ''external_url'', ''note''}" by simp
  note th = spotify_close_match[OF a b, of "const_rng zero01"]
  note r3 = th[THEN conjunct2, THEN conjunct2, THEN conjunct1]
  note r4 = th[THEN conjunct2, THEN conjunct2, THEN conjunct2, THEN conjunct1]
  note r5 = th[THEN conjunct2, THEN conjunct2, THEN conjunct2, THEN conjunct2, THEN conjunct1]
  note r6 = th[THEN conjunct2, THEN conjunct2, THEN conjunct2, THEN conjunct2, THEN conjunct2,
      THEN conjunct1]
  note r7 = th[THEN conjunct2, THEN conjunct2, THEN conjunct2, THEN conjunct2, THEN conjunct2,
      THEN conjunct2, THEN spec, THEN mp, OF f]
  from r3 r4 r5[unfolded c] r6[unfolded c] r7[unfolded e] a d show ?thesis by simp
qed

subsection \<open>The fallback dispatch\<close>

lemma str_includes_single: "str_includes s [c] \<longleftrightarrow> c \<in> set s"
  by (induction s) auto

lemma shape_of_artist: "shape_of (artist_response u n g) = Some ArtistShape"
  using artist_response_props[of u n g] by (simp add: shape_of_def)

lemma shape_of_user: "shape_of (user_response u n g) = Some ListenerShape"
  using user_response_props[of u n g] by (simp add: shape_of_def)

lemma shape_of_not_found: "shape_of not_found_omitted = Some NoProfile"
  by (simp add: shape_of_def not_found_omitted_def exists_of_def)

text \<open>
  What \<^verbatim>\<open>knownProfiles[normalizedUsername]\<close> can find besides a key of the data set. A
  normalized username has no capital letter from A to Z, and every name inherited from
  \<^verbatim>\<open>Object.prototype\<close> has one, except \<^verbatim>\<open>constructor\<close> and \<^verbatim>\<open>__proto__\<close>.
\<close>

lemma lowerLetters_not_capital:
  "list_all (\<lambda>d. d \<notin> set ''ABCDEFGHIJKLMNOPQRSTUVWXYZ'') lowerLetters"
  by code_simp

lemma capitals_in_upperLetters:
  "list_all (\<lambda>c. c \<in> set upperLetters) ''ABCDEFGHIJKLMNOPQRSTUVWXYZ''"
  by code_simp

lemma length_letters: "length upperLetters = length lowerLetters"
  by code_simp

lemma lowerChar_not_capital: "lowerChar c \<notin> set ''ABCDEFGHIJKLMNOPQRSTUVWXYZ''"
proof (cases "map_of (zip upperLetters lowerLetters) c")
  case None
  then have "c \<notin> set upperLetters"
    using length_letters by simp
  with capitals_in_upperLetters have "c \<notin> set ''ABCDEFGHIJKLMNOPQRSTUVWXYZ''"
    unfolding list_all_iff by blast
  with None show ?thesis by (simp add: lowerChar_def)
next
  case (Some d)
  then have "d \<in> set lowerLetters"
    by (auto dest!: map_of_SomeD set_zip_rightD)
  with lowerLetters_not_capital have "d \<notin> set ''ABCDEFGHIJKLMNOPQRSTUVWXYZ''"
    unfolding list_all_iff by blast
  with Some show ?thesis by (simp add: lowerChar_def)
qed

lemma normalize_no_capital:
  "c \<in> set (normalize username) \<Longrightarrow> c \<notin> set ''ABCDEFGHIJKLMNOPQRSTUVWXYZ''"
proof -
  assume c: "c \<in> set (normalize username)"
  have the: "list_all (\<lambda>d. d \<notin> set ''ABCDEFGHIJKLMNOPQRSTUVWXYZ'') ''theweeknd''"
    by code_simp
  show ?thesis
  proof (cases "normalize username = ''theweeknd''")
    case True
    with c have "c \<in> set ''theweeknd''" by (simp only:)
    with the show ?thesis unfolding list_all_iff by blast
  next
    case False
    then have "normalize username = filter (\<lambda>c. \<not> isSpace c) (toLowerCase username)"
      by (simp add: normalize_def Let_def split: if_splits)
    with c obtain x where "c = lowerChar x"
      by (auto simp: toLowerCase_def)
    then show ?thesis using lowerChar_not_capital[of x] by simp
  qed
qed

lemma prototype_names_capital:
  "list_all (\<lambda>p. p = ''constructor'' \<or> p = ''__proto__''
      \<or> list_ex (\<lambda>c. c \<in> set ''ABCDEFGHIJKLMNOPQRSTUVWXYZ'') p) Object_prototype_names"
  by code_simp

lemma normalize_not_found:
  assumes "normalize username \<notin> set knownProfiles_keys"
    and "normalize username \<notin> {''constructor'', ''__proto__''}"
  shows "\<not> truthy (knownProfiles_at (normalize username))"
proof
  assume "truthy (knownProfiles_at (normalize username))"
  moreover have "map_of knownProfiles (normalize username) = None"
    using assms(1) by (simp add: knownProfiles_keys_def map_of_eq_None_iff)
  ultimately have "normalize username \<in> set Object_prototype_names"
    by (simp add: knownProfiles_at_def split: if_splits)
  with prototype_names_capital assms(2)
  have "list_ex (\<lambda>c. c \<in> set ''ABCDEFGHIJKLMNOPQRSTUVWXYZ'') (normalize username)"
    unfolding list_all_iff by blast
  then obtain c where "c \<in> set (normalize username)"
    and "c \<in> set ''ABCDEFGHIJKLMNOPQRSTUVWXYZ''"
    unfolding list_ex_iff by blast
  with normalize_no_capital[of c username] show False by blast
qed

text \<open>
  Claim C8, amended. The fallback is reached when the normalized query is no key of the
  data set, is neither \<^verbatim>\<open>constructor\<close> nor \<^verbatim>\<open>__proto__\<close>, and has no key within edit
  distance 2. The handler then answers with the artist shape exactly when the username is
  longer than 3 and has no run of three digits; otherwise with the listener shape when
  the username has at least 3 characters and does not contain the space character;
  otherwise with \<^verbatim>\<open>exists: false\<close>. The query \<^verbatim>\<open>12\<close> gets \<^verbatim>\<open>exists: false\<close>.
\<close>

theorem spotify_fallback_dispatch:
  assumes "normalize username \<notin> set knownProfiles_keys"
    and "normalize username \<notin> {''constructor'', ''__proto__''}"
    and "closeMatches (normalize username) = []"
  shows "shape_of (spotify username g) = Some (dispatched_shape username)
    \<and> (dispatched_shape username = ArtistShape \<longrightarrow>
          spotify username g = artist_response username (normalize username) g)
    \<and> (dispatched_shape username = ListenerShape \<longrightarrow>
          spotify username g = user_response username (normalize username) g)
    \<and> (dispatched_shape username = NoProfile \<longrightarrow> spotify username g = not_found_omitted)"
proof -
  from normalize_not_found[OF assms(1,2)]
  have nt: "\<not> truthy (knownProfiles_at (normalize username))" .
  consider
    (artist) "likely_artist username"
      "spotify username g = artist_response username (normalize username) g"
  | (user) "\<not> likely_artist username" "isLikelyUser username"
      "spotify username g = user_response username (normalize username) g"
  | (none) "\<not> likely_artist username" "\<not> isLikelyUser username"
      "spotify username g = not_found_omitted"
    using spotify_cases[of username g] nt assms(3) by auto
  then show ?thesis
  proof cases
    case artist
    then have "dispatched_shape username = ArtistShape"
      by (simp add: dispatched_shape_def likely_artist_def)
    with artist shape_of_artist show ?thesis by simp
  next
    case user
    then have "dispatched_shape username = ListenerShape"
      by (auto simp: dispatched_shape_def likely_artist_def isLikelyUser_def str_includes_single)
    with user shape_of_user show ?thesis by simp
  next
    case none
    then have "dispatched_shape username = NoProfile"
      by (auto simp: dispatched_shape_def likely_artist_def isLikelyUser_def str_includes_single)
    with none shape_of_not_found show ?thesis by simp
  qed
qed

theorem spotify_fallback_dispatch_witness:
  "normalize ''12'' \<notin> set knownProfiles_keys
   \<and> normalize ''12'' \<notin> {''constructor'', ''__proto__''}
   \<and> closeMatches (normalize ''12'') = []
   \<and> dispatched_shape ''12'' = NoProfile
   \<and> spotify ''12'' (const_rng zero01) = not_found_omitted
   \<and> exists_of (spotify ''12'' (const_rng zero01)) = JBool False"
proof -
  have a: "normalize ''12'' \<notin> set knownProfiles_keys" by code_simp
  have a': "normalize ''12'' \<notin> {''constructor'', ''__proto__''}" by code_simp
  have b: "closeMatches (normalize ''12'') = []" by code_simp
  have c: "dispatched_shape ''12'' = NoProfile" by code_simp
  from spotify_fallback_dispatch[OF a a' b, of "const_rng zero01"] c
  have "spotify ''12'' (const_rng zero01) = not_found_omitted" by simp
  with a a' b c show ?thesis by (simp add: not_found_omitted_def exists_of_def)
qed

text \<open>
  The claim as stated asks for no white space. A username with a tab between two letters
  has white space, reaches the fallback and is answered with a listener profile.
\<close>

theorem spotify_tab_counterexample:
  "list_ex isSpace [CHR ''a'', CHR 0x09, CHR ''b'']
   \<and> normalize [CHR ''a'', CHR 0x09, CHR ''b''] \<notin> set knownProfiles_keys
   \<and> normalize [CHR ''a'', CHR 0x09, CHR ''b''] \<notin> {''constructor'', ''__proto__''}
   \<and> closeMatches (normalize [CHR ''a'', CHR 0x09, CHR ''b'']) = []
   \<and> stated_shape [CHR ''a'', CHR 0x09, CHR ''b''] = NoProfile
   \<and> shape_of (spotify [CHR ''a'', CHR 0x09, CHR ''b''] (const_rng zero01)) = Some ListenerShape"
proof -
  let ?u = "[CHR ''a'', CHR 0x09, CHR ''b'']"
  have a: "\<not> truthy (knownProfiles_at (normalize ?u))" by code_simp
  have a1: "normalize ?u \<notin> set knownProfiles_keys" by code_simp
  have a2: "normalize ?u \<notin> {''constructor'', ''__proto__''}" by code_simp
  have b: "closeMatches (normalize ?u) = []" by code_simp
  have c: "\<not> likely_artist ?u" by code_simp
  have d: "isLikelyUser ?u" by code_simp
  have e: "stated_shape ?u = NoProfile" by code_simp
  have f: "list_ex isSpace ?u" by code_simp
  have "spotify ?u (const_rng zero01) = user_response ?u (normalize ?u) (const_rng zero01)"
    using spotify_cases[of ?u "const_rng zero01"] a b c d by simp
  with shape_of_user
  have tab: "shape_of (spotify ?u (const_rng zero01)) = Some ListenerShape" by simp
  from f a1 a2 b e tab show ?thesis by (simp only: simp_thms)
qed

text \<open>
  Why the two inherited names are set apart: \<^verbatim>\<open>constructor\<close> is no key of the data set
  and has no key within distance 2, yet \<^verbatim>\<open>knownProfiles['constructor']\<close> is truthy, so the
  handler answers from the exact-match branch, with \<^verbatim>\<open>exists: true\<close> and a profile that
  has neither the artist nor the listener shape. The same holds for \<^verbatim>\<open>__proto__\<close>.
\<close>

lemma spotify_inherited_names:
  "list_all (\<lambda>u. normalize u \<notin> set knownProfiles_keys
      \<and> closeMatches (normalize u) = []
      \<and> spotify u (const_rng zero01) = exact_match_response u
      \<and> exists_of (spotify u (const_rng zero01)) = JBool True
      \<and> shape_of (spotify u (const_rng zero01)) = None) [''constructor'', ''__proto__'']"
proof -
  have one: "normalize u \<notin> set knownProfiles_keys
      \<and> closeMatches (normalize u) = []
      \<and> spotify u (const_rng zero01) = exact_match_response u
      \<and> exists_of (spotify u (const_rng zero01)) = JBool True
      \<and> shape_of (spotify u (const_rng zero01)) = None"
    if n: "normalize u = u" and k1: "u \<notin> set knownProfiles_keys"
      and k2: "closeMatches u = []" and k4: "truthy (knownProfiles_at u)"
      and k5: "exists_of (exact_match_response u) = JBool True"
      and k6: "shape_of (exact_match_response u) = None" for u
  proof -
    have "spotify u (const_rng zero01) = exact_match_response u"
      using spotify_cases[of u "const_rng zero01"] k4 n by simp
    with n k1 k2 k5 k6 show ?thesis by (simp only: simp_thms)
  qed
  have c: "normalize ''constructor'' = ''constructor''"
    "''constructor'' \<notin> set knownProfiles_keys"
    "closeMatches ''constructor'' = []"
    "truthy (knownProfiles_at ''constructor'')"
    "exists_of (exact_match_response ''constructor'') = JBool True"
    "shape_of (exact_match_response ''constructor'') = None"
    by code_simp+
  have p: "normalize ''__proto__'' = ''__proto__''"
    "''__proto__'' \<notin> set knownProfiles_keys"
    "closeMatches ''__proto__'' = []"
    "truthy (knownProfiles_at ''__proto__'')"
    "exists_of (exact_match_response ''__proto__'') = JBool True"
    "shape_of (exact_match_response ''__proto__'') = None"
    by code_simp+
  have nil: "list_all P []" for P :: "string \<Rightarrow> bool" by simp
  show ?thesis
    unfolding list.pred_inject by (rule conjI[OF one[OF c] conjI[OF one[OF p] nil]])
qed

text \<open>
  The no-break space is white space for the pattern \<^verbatim>\<open>/\s+/g\<close>, and the capital letters above U+007F
  have a lower case: such queries are normalized like the others.
\<close>

lemma normalize_beyond_ascii:
  "normalize (''dra'' @ [CHR 0xA0] @ ''ke'') = ''drake''"
  "normalize (''BEYONC'' @ [CHR 0xC9]) = ''beyonc'' @ [CHR 0xE9]"
  "closeMatches (normalize (''BEYONC'' @ [CHR 0xC9])) = [''beyonce'']"
  by code_simp+

subsection \<open>The genres of the synthetic artist\<close>

lemma Math_random_const: "Math_random (const_rng x) = (Rep_unit01 x, const_rng x)"
  by (simp add: Math_random_def const_rng_def)

lemma random_below_zero: "random_below n (const_rng zero01) = (0, const_rng zero01)"
  by (simp add: random_below_def Math_random_const zero01.rep_eq)

lemma selectedGenres_zero: "selectedGenres_of (const_rng zero01) = ([''indie''], const_rng zero01)"
  by (simp add: selectedGenres_of_def random_pick_def random_below_zero genres_def
      selectedGenres_loop.simps)

lemma artist_response_genres:
  "get (profile_of (artist_response u n g)) ''genres'' = JArr (map JStr (fst (selectedGenres_of g)))"
  by (simp add: artist_response_def profile_of_def Let_def split: prod.splits)

text \<open>
  Claim C9, amended. The \<^verbatim>\<open>genres\<close> of every synthetic artist profile are between 1 and 4
  tags, without repetition, all from one of the five pools. The loop makes 2 to 4 draws
  and drops a tag it has drawn before, so a single tag can remain.
\<close>

theorem spotify_artist_genres:
  assumes "get (profile_of (spotify username g)) ''simulated'' = JBool True"
    and "get (profile_of (spotify username g)) ''type'' = JStr ''artist''"
  shows "\<exists>gs. get (profile_of (spotify username g)) ''genres'' = JArr (map JStr gs)
         \<and> distinct gs \<and> 1 \<le> length gs \<and> length gs \<le> 4
         \<and> (\<exists>pool \<in> set genres. set gs \<subseteq> set pool)"
proof -
  consider
    (exact) "truthy (knownProfiles_at (normalize username))"
      "spotify username g = exact_match_response (normalize username)"
  | (close) "closeMatches (normalize username) \<noteq> []"
      "spotify username g = close_match_response username (closeMatches (normalize username) ! 0)"
  | (artist) "spotify username g = artist_response username (normalize username) g"
  | (user) "spotify username g = user_response username (normalize username) g"
  | (none) "spotify username g = not_found_omitted"
    using spotify_cases[of username g] by blast
  then show ?thesis
  proof cases
    case exact
    with exact_not_simulated(2)[OF exact(1)] assms(1) show ?thesis by simp
  next
    case close
    with close_match_props(2)[OF closeMatches_first[OF close(1)], of username] assms(1)
    show ?thesis by simp
  next
    case artist
    show ?thesis unfolding artist using artist_response_props[of username "normalize username" g]
      by blast
  next
    case user
    with user_response_props[of username "normalize username" g] assms(2) show ?thesis by simp
  next
    case none
    with assms(1) show ?thesis by (simp add: not_found_omitted_def profile_of_def)
  qed
qed

theorem spotify_artist_genres_witness:
  "get (profile_of (spotify ''zz-top band'' (const_rng zero01))) ''simulated'' = JBool True
   \<and> get (profile_of (spotify ''zz-top band'' (const_rng zero01))) ''type'' = JStr ''artist''
   \<and> (\<exists>gs. get (profile_of (spotify ''zz-top band'' (const_rng zero01))) ''genres'' = JArr (map JStr gs)
         \<and> distinct gs \<and> 1 \<le> length gs \<and> length gs \<le> 4)"
proof -
  have a: "get (profile_of (spotify ''zz-top band'' (const_rng zero01))) ''simulated'' = JBool True"
    and b: "get (profile_of (spotify ''zz-top band'' (const_rng zero01))) ''type'' = JStr ''artist''"
    unfolding zz_artist using artist_response_props[of "''zz-top band''" "''zz-topband''" "const_rng zero01"]
    by simp_all
  from spotify_artist_genres[OF a b] a b show ?thesis by blast
qed

text \<open>
  With a random source that always returns 0 both draws give \<^verbatim>\<open>indie\<close>: one tag, not two.
\<close>

theorem spotify_one_genre_counterexample:
  "get (profile_of (spotify ''zz-top band'' (const_rng zero01))) ''simulated'' = JBool True
   \<and> get (profile_of (spotify ''zz-top band'' (const_rng zero01))) ''type'' = JStr ''artist''
   \<and> get (profile_of (spotify ''zz-top band'' (const_rng zero01))) ''genres'' = JArr [JStr ''indie'']"
  unfolding zz_artist
  using artist_response_props[of "''zz-top band''" "''zz-topband''" "const_rng zero01"]
  by (simp add: artist_response_genres selectedGenres_zero)


section \<open>Properties of the endpoints\<close>

lemma and_then_Inl [simp]: "and_then (Inl e) f = Inl e"
  by (simp add: and_then_def)

lemma and_then_Inr [simp]: "and_then (Inr x) f = f x"
  by (simp add: and_then_def)

lemma call_undeclared [simp]:
  "call name parseTwitterNumbers x = Inl (ReferenceError name)"
  "call name parseTikTokNumber y = Inl (ReferenceError name)"
  by (simp_all add: call_def parseTwitterNumbers_def parseTikTokNumber_def)

lemma guess_json_props:
  "status (guess_json b p) = 200" "has_profile (guess_json b p)"
  "exists_of (guess_json b p) = JBool b"
  "b \<Longrightarrow> profile_of (guess_json b p) = p"
  "\<not> b \<Longrightarrow> guess_json b p = not_found_null"
  by (simp_all add: guess_json_def has_profile_def exists_of_def profile_of_def not_found_null_def)

lemma not_found_omitted_props:
  "status not_found_omitted = 200" "\<not> has_profile not_found_omitted"
  "exists_of not_found_omitted = JBool False" "profile_of not_found_omitted = JUndefined"
  by (simp_all add: not_found_omitted_def has_profile_def exists_of_def profile_of_def)

lemma not_found_null_props:
  "status not_found_null = 200" "has_profile not_found_null"
  "exists_of not_found_null = JBool False" "profile_of not_found_null = JNull"
  by (simp_all add: not_found_null_def has_profile_def exists_of_def profile_of_def)

lemma guess_json_shape:
  "is_object p \<Longrightarrow> get p ''simulated'' = JBool True \<Longrightarrow> get p ''scraped'' = JUndefined \<Longrightarrow>
   simulated_guess (guess_json b p) \<or> guess_json b p = not_found_null"
  by (cases b) (simp_all add: simulated_guess_def guess_json_props)

subsection \<open>The fallback guesses\<close>

lemma twitter_guess_shape:
  "simulated_guess (twitter_guess username g) \<or> twitter_guess username g = not_found_null"
  unfolding twitter_guess_def Let_def by (rule guess_json_shape) simp_all

lemma instagram_guess_shape:
  "simulated_guess (instagram_guess username g) \<or> instagram_guess username g = not_found_null"
  unfolding instagram_guess_def Let_def by (rule guess_json_shape) simp_all

lemma linkedin_guess_shape:
  "simulated_guess (linkedin_guess username) \<or> linkedin_guess username = not_found_null"
  unfolding linkedin_guess_def Let_def by (rule guess_json_shape) simp_all

lemma reddit_guess_shape:
  "simulated_guess (reddit_guess env username g) \<or> reddit_guess env username g = not_found_null"
  unfolding reddit_guess_def Let_def by (rule guess_json_shape) (simp_all split: prod.splits)

lemma tiktok_guess_shape:
  "simulated_guess (tiktok_guess username g) \<or> tiktok_guess username g = not_found_null"
  unfolding tiktok_guess_def Let_def by (rule guess_json_shape) (simp_all split: prod.splits)

subsection \<open>Twitter and its undeclared parser\<close>

lemma twitter_try_cases:
  "twitter_try username response = Inr not_found_omitted
   \<or> (\<exists>e. twitter_try username response = Inl e)"
  by (cases response) (simp_all add: twitter_try_def not_found_omitted_def Let_def)

lemma twitter_cases:
  "twitter username response g = not_found_omitted
   \<or> twitter username response g = twitter_guess username g"
  using twitter_try_cases[of username response] by (auto simp: twitter_def)

text \<open>
  Claim C10. For every username, every outcome of the request to nitter.net and every
  random source, the Twitter endpoint answers with status 200 and never with a profile
  tagged \<^verbatim>\<open>scraped: true\<close>: the call of \<^verbatim>\<open>parseTwitterNumbers\<close> throws before the
  scraped profile is built. Every answer with \<^verbatim>\<open>exists: true\<close> is the fallback guess and
  is tagged \<^verbatim>\<open>simulated: true\<close>; every answer that is not simulated has
  \<^verbatim>\<open>exists: false\<close>.
\<close>

theorem twitter_never_scraped:
  "get (profile_of (twitter username response g)) ''scraped'' \<noteq> JBool True
   \<and> status (twitter username response g) = 200
   \<and> (twitter username response g = not_found_omitted
        \<or> twitter username response g = twitter_guess username g)
   \<and> (exists_of (twitter username response g) = JBool True \<longrightarrow>
        twitter username response g = twitter_guess username g
        \<and> get (profile_of (twitter username response g)) ''simulated'' = JBool True)
   \<and> (get (profile_of (twitter username response g)) ''simulated'' \<noteq> JBool True \<longrightarrow>
        exists_of (twitter username response g) = JBool False)"
proof (cases "twitter username response g = not_found_omitted")
  case True
  then show ?thesis by (simp add: not_found_omitted_props)
next
  case False
  with twitter_cases[of username response g]
  have eq: "twitter username response g = twitter_guess username g" by simp
  from twitter_guess_shape[of username g] show ?thesis
    unfolding eq by (auto simp: simulated_guess_def not_found_null_props)
qed


theorem twitter_never_scraped_witness:
  "error_panel example_twitter_page = 0
   \<and> exists_of (twitter ''nasa'' (Inr example_twitter_page) (const_rng half01)) = JBool True
   \<and> twitter ''nasa'' (Inr example_twitter_page) (const_rng half01) = twitter_guess ''nasa'' (const_rng half01)
   \<and> get (profile_of (twitter ''nasa'' (Inr example_twitter_page) (const_rng half01))) ''simulated'' = JBool True
   \<and> get (profile_of (twitter ''nasa'' (Inr example_twitter_page) (const_rng half01))) ''scraped'' \<noteq> JBool True
   \<and> get (profile_of (twitter ''ab'' (Inr example_twitter_page) (const_rng half01))) ''simulated'' \<noteq> JBool True
   \<and> exists_of (twitter ''ab'' (Inr example_twitter_page) (const_rng half01)) = JBool False"
proof -
  have a: "error_panel example_twitter_page = 0" by (simp add: example_twitter_page_def)
  have b: "exists_of (twitter ''nasa'' (Inr example_twitter_page) (const_rng half01)) = JBool True"
    by (simp add: twitter_def twitter_try_def a Let_def twitter_guess_def guess_json_props)
  have "\<not> (toLowerCase ''ab'' \<in> set [''elonmusk'', ''google'', ''microsoft'', ''apple'', ''amazon'',
            ''netflix'', ''twitter'', ''facebook'', ''instagram'', ''tiktok'', ''billgates'']
          \<or> length ''ab'' > 3)"
    by code_simp
  then have "twitter_guess ''ab'' (const_rng half01) = not_found_null"
    unfolding twitter_guess_def Let_def by (rule guess_json_props(5))
  then have "twitter ''ab'' (Inr example_twitter_page) (const_rng half01) = not_found_null"
    by (simp add: twitter_def twitter_try_def a Let_def)
  then have c: "get (profile_of (twitter ''ab'' (Inr example_twitter_page) (const_rng half01))) ''simulated''
      \<noteq> JBool True"
    by (simp add: not_found_null_props)
  from twitter_never_scraped[of "''nasa''" "Inr example_twitter_page" "const_rng half01"] b
  have "twitter ''nasa'' (Inr example_twitter_page) (const_rng half01) = twitter_guess ''nasa'' (const_rng half01)
    \<and> get (profile_of (twitter ''nasa'' (Inr example_twitter_page) (const_rng half01))) ''simulated'' = JBool True
    \<and> get (profile_of (twitter ''nasa'' (Inr example_twitter_page) (const_rng half01))) ''scraped'' \<noteq> JBool True"
    by blast
  moreover from twitter_never_scraped[of "''ab''" "Inr example_twitter_page" "const_rng half01"] c
  have "exists_of (twitter ''ab'' (Inr example_twitter_page) (const_rng half01)) = JBool False"
    by blast
  ultimately show ?thesis using a b c by blast
qed

subsection \<open>The other handlers at a failed live step\<close>

lemma github_Inl:
  "github (Inl e) r = (if is404 e then not_found_omitted else github_server_error)"
  "github (Inr d) (Inl e) = (if is404 e then not_found_omitted else github_server_error)"
  by (simp_all add: github_def github_try_def not_found_omitted_def github_server_error_def)

lemma instagram_Inl:
  "instagram username (Inl e) g = (if is404 e then not_found_omitted else instagram_guess username g)"
  by (simp add: instagram_def instagram_try_def not_found_omitted_def)

lemma linkedin_Inl:
  "linkedin username (Inl e) g = (if is404 e then not_found_omitted else linkedin_guess username)"
  by (simp add: linkedin_def linkedin_try_def not_found_omitted_def)

lemma reddit_Inl:
  "reddit env username (Inl e) g = (if is404 e then not_found_omitted else reddit_guess env username g)"
  by (simp add: reddit_def reddit_try_def not_found_omitted_def)

lemma tiktok_Inl:
  "tiktok username (Inl e) g = (if is404 e then not_found_omitted else tiktok_guess username g)"
  by (simp add: tiktok_def tiktok_try_def thrown_at_def not_found_omitted_def)

lemma twitter_Inl: "twitter username (Inl e) g = twitter_guess username g"
  by (simp add: twitter_def twitter_try_def)

lemma found_res_json:
  "found (res_json (JObj [(''exists'', JBool True), (''profile'', JObj kvs)]))"
  by (simp add: found_def exists_of_def profile_of_def)

lemma envelope_found: "found r \<Longrightarrow> status r = 200 \<and> envelope_kept r"
  by (simp add: found_def envelope_kept_def)

lemma envelope_omitted: "status not_found_omitted = 200 \<and> envelope_kept not_found_omitted"
  by (simp add: envelope_kept_def not_found_omitted_props)

lemma envelope_null: "status not_found_null = 200 \<and> envelope_kept not_found_null"
  by (simp add: envelope_kept_def not_found_null_props)

lemma envelope_fallback: "fallback_answer r \<Longrightarrow> status r = 200 \<and> envelope_kept r"
  using envelope_null by (auto simp: fallback_answer_def simulated_guess_def envelope_kept_def)

lemma github_try_found: "github_try a b = Inr r \<Longrightarrow> found r"
  by (auto simp: github_try_def and_then_def found_res_json split: sum.splits)

lemma github_envelope:
  "github a b = github_server_error \<or> (status (github a b) = 200 \<and> envelope_kept (github a b))"
proof (cases "github_try a b")
  case (Inl e)
  then show ?thesis
    using envelope_omitted by (simp add: github_def github_server_error_def not_found_omitted_def)
next
  case (Inr r)
  with github_try_found[OF Inr] envelope_found[of r] show ?thesis by (simp add: github_def)
qed

lemma twitter_envelope:
  "status (twitter u p g) = 200 \<and> envelope_kept (twitter u p g)"
  using twitter_cases[of u p g] twitter_guess_shape[of u g] envelope_omitted
    envelope_fallback[of "twitter_guess u g"]
  by (auto simp: fallback_answer_def)

lemma instagram_try_found: "instagram_try u a = Inr r \<Longrightarrow> found r"
  by (auto simp: instagram_try_def and_then_def Let_def found_res_json split: sum.splits)

lemma instagram_envelope:
  "status (instagram u a g) = 200 \<and> envelope_kept (instagram u a g)"
proof (cases "instagram_try u a")
  case (Inl e)
  then show ?thesis
    using envelope_omitted instagram_guess_shape[of u g] envelope_fallback[of "instagram_guess u g"]
    by (simp add: instagram_def not_found_omitted_def fallback_answer_def)
next
  case (Inr r)
  with instagram_try_found[OF Inr] envelope_found[of r] show ?thesis by (simp add: instagram_def)
qed

lemma linkedin_try_found: "linkedin_try u a g = Inr r \<Longrightarrow> found r"
  by (auto simp: linkedin_try_def and_then_def found_res_json split: sum.splits)

lemma linkedin_envelope:
  "status (linkedin u a g) = 200 \<and> envelope_kept (linkedin u a g)"
proof (cases "linkedin_try u a g")
  case (Inl e)
  then show ?thesis
    using envelope_omitted linkedin_guess_shape[of u] envelope_fallback[of "linkedin_guess u"]
    by (simp add: linkedin_def not_found_omitted_def fallback_answer_def)
next
  case (Inr r)
  with linkedin_try_found[OF Inr] envelope_found[of r] show ?thesis by (simp add: linkedin_def)
qed

lemma reddit_try_found: "reddit_try env a = Inr r \<Longrightarrow> found r \<or> r = not_found_omitted"
  by (auto simp: reddit_try_def and_then_def Let_def found_res_json not_found_omitted_def
      split: sum.splits if_splits)

lemma reddit_envelope:
  "status (reddit env u a g) = 200 \<and> envelope_kept (reddit env u a g)"
proof (cases "reddit_try env a")
  case (Inl e)
  then show ?thesis
    using envelope_omitted reddit_guess_shape[of env u g] envelope_fallback[of "reddit_guess env u g"]
    by (simp add: reddit_def not_found_omitted_def fallback_answer_def)
next
  case (Inr r)
  with reddit_try_found[OF Inr] envelope_found[of r] envelope_omitted show ?thesis
    by (auto simp: reddit_def)
qed

lemma tiktok_try_found: "tiktok_try u a g = Inr r \<Longrightarrow> found r \<or> r = not_found_omitted"
  by (auto simp: tiktok_try_def tiktok_number_def thrown_at_def and_then_def Let_def
      found_res_json not_found_omitted_def
      split: sum.splits if_splits option.splits prod.splits)

lemma tiktok_envelope:
  "status (tiktok u a g) = 200 \<and> envelope_kept (tiktok u a g)"
proof (cases "tiktok_try u a g")
  case (Inl eg)
  obtain e g' where eg: "eg = (e, g')" by (cases eg)
  with Inl show ?thesis
    using envelope_omitted tiktok_guess_shape[of u g'] envelope_fallback[of "tiktok_guess u g'"]
    by (simp add: tiktok_def not_found_omitted_def fallback_answer_def)
next
  case (Inr r)
  with tiktok_try_found[OF Inr] envelope_found[of r] envelope_omitted show ?thesis
    by (auto simp: tiktok_def)
qed

lemma random_below_half:
  "random_below n (const_rng half01) = (nat \<lfloor>real n / 2\<rfloor>, const_rng half01)"
  by (simp add: random_below_def Math_random_const half01.rep_eq)

subsection \<open>A failed live step\<close>




subsection \<open>An explicit not-found\<close>

text \<open>
  Claim C2, amended. For GitHub, Instagram, LinkedIn, Reddit and TikTok, a response with
  status 404 to the live request is answered with status 200 and the body
  \<^verbatim>\<open>{ exists: false }\<close>, whatever the username and the random source: the guess is not
  consulted. The body has no property \<^verbatim>\<open>profile\<close>.
\<close>

theorem remote_not_found_short_circuits:
  assumes "is404 e"
  shows "handle env g (GitHub username (Inl e) reposResponse) = not_found_omitted
   \<and> handle env g (GitHub username (Inr d) (Inl e)) = not_found_omitted
   \<and> handle env g (Instagram username (Inl e)) = not_found_omitted
   \<and> handle env g (LinkedIn username (Inl e)) = not_found_omitted
   \<and> handle env g (Reddit username (Inl e)) = not_found_omitted
   \<and> handle env g (TikTok username (Inl e)) = not_found_omitted
   \<and> status not_found_omitted = 200
   \<and> exists_of not_found_omitted = JBool False
   \<and> \<not> has_profile not_found_omitted
   \<and> profile_of not_found_omitted = JUndefined"
  using assms
  by (simp add: instagram_Inl linkedin_Inl reddit_Inl tiktok_Inl github_Inl not_found_omitted_props)

theorem remote_not_found_short_circuits_witness:
  "is404 (AxiosError (Some 404))
   \<and> exists_of (instagram_guess ''cristiano'' (const_rng half01)) = JBool True
   \<and> handle example_builtins (const_rng half01) (Instagram ''cristiano'' (Inl (AxiosError (Some 404))))
       = res_json (JObj [(''exists'', JBool False)])"
proof -
  have a: "is404 (AxiosError (Some 404))" by simp
  have b: "exists_of (instagram_guess ''cristiano'' (const_rng half01)) = JBool True"
    by (simp add: instagram_guess_def guess_json_props)
  from remote_not_found_short_circuits[OF a, of example_builtins "const_rng half01" "''cristiano''"]
  have "handle example_builtins (const_rng half01) (Instagram ''cristiano'' (Inl (AxiosError (Some 404))))
       = not_found_omitted" by blast
  with a b show ?thesis by (simp add: not_found_omitted_def)
qed

text \<open>
  The claim as stated covers every resolver and asks for \<^verbatim>\<open>profile: null\<close>. The catch
  clause of the Twitter handler does not test for status 404, so a popular username gets
  a simulated profile; and the answer of the Instagram handler to a 404 has no property
  \<^verbatim>\<open>profile\<close>.
\<close>

theorem twitter_not_found_counterexample:
  "is404 (AxiosError (Some 404))
   \<and> handle example_builtins (const_rng half01) (Twitter ''elonmusk'' (Inl (AxiosError (Some 404)))) =
       res_json (JObj [(''exists'', JBool True),
         (''profile'', JObj [(''username'', JStr ''elonmusk''), (''followers'', JNum 5000),
                             (''simulated'', JBool True)])])
   \<and> exists_of (handle example_builtins (const_rng half01)
        (Instagram ''cristiano'' (Inl (AxiosError (Some 404))))) = JBool False
   \<and> \<not> has_profile (handle example_builtins (const_rng half01)
        (Instagram ''cristiano'' (Inl (AxiosError (Some 404)))))
   \<and> profile_of (handle example_builtins (const_rng half01)
        (Instagram ''cristiano'' (Inl (AxiosError (Some 404))))) \<noteq> JNull"
  by (simp add: twitter_Inl instagram_Inl not_found_omitted_props twitter_guess_def guess_json_def
      random_below_half)

subsection \<open>Suffixed counts\<close>

lemma tiktok_example_matches:
  "first_match (magnitude_at ''Followers'') ''1.2M Followers, 3K Likes'' = Some ''1.2M''"
  "first_match (magnitude_at ''Likes'') ''1.2M Followers, 3K Likes'' = Some ''3K''"
  "str_includes ''Khabane (@khaby) | TikTok'' (''@'' @ ''khaby'')"
  "instagram_count ''Followers'' ''12,345 Followers'' = 12345"
  by code_simp+

lemma tiktok_try_followers_match:
  assumes "og_title page = Some t" and "t \<noteq> []" and "str_includes t (''@'' @ username)"
    and "og_description page = Some d"
    and "first_match (magnitude_at ''Followers'') d = Some m"
  shows "tiktok_try username (Inr page) g = Inl (ReferenceError ''parseTikTokNumber'', g)"
  using assms by (simp add: tiktok_try_def tiktok_number_def thrown_at_def Let_def)

lemma tiktok_example_page:
  "og_title example_tiktok_page = Some ''Khabane (@khaby) | TikTok''"
  "og_description example_tiktok_page = Some ''1.2M Followers, 3K Likes''"
  by (simp_all add: example_tiktok_page_def)

text \<open>
  Claim C7, at the failing input. The description \<^verbatim>\<open>1.2M Followers, 3K Likes\<close> matches
  the pattern of the TikTok handler, which then calls the undeclared
  \<^verbatim>\<open>parseTikTokNumber\<close>: the answer is the fallback guess, whose follower count is a
  random number and never 1200000. The Twitter handler fails in the same way on every
  page without an error panel. The pattern of the Instagram handler reads \<^verbatim>\<open>12,345 Followers\<close> as 12345 and
  does not match a suffixed count, which leaves 0.
\<close>

theorem suffixed_counts_at_failing_input:
  "first_match (magnitude_at ''Followers'') ''1.2M Followers, 3K Likes'' = Some ''1.2M''
   \<and> tiktok ''khaby'' (Inr example_tiktok_page) g = tiktok_guess ''khaby'' g
   \<and> get (profile_of (tiktok ''khaby'' (Inr example_tiktok_page) g)) ''simulated'' = JBool True
   \<and> get (profile_of (tiktok ''khaby'' (Inr example_tiktok_page) g)) ''followers'' \<noteq> JNum 1200000
   \<and> twitter ''nasa'' (Inr example_twitter_page) g = twitter_guess ''nasa'' g
   \<and> get (profile_of (twitter ''nasa'' (Inr example_twitter_page) g)) ''followers'' \<noteq> JNum 12345
   \<and> instagram_count ''Followers'' ''12,345 Followers'' = 12345
   \<and> instagram_count ''Followers'' ''1.2M Followers'' = 0"
proof -
  have "tiktok_try ''khaby'' (Inr example_tiktok_page) g = Inl (ReferenceError ''parseTikTokNumber'', g)"
    by (rule tiktok_try_followers_match[OF tiktok_example_page(1) _ tiktok_example_matches(3)
          tiktok_example_page(2) tiktok_example_matches(1)]) simp
  then have tk: "tiktok ''khaby'' (Inr example_tiktok_page) g = tiktok_guess ''khaby'' g"
    by (simp add: tiktok_def)
  have f: "fst (random_below 1000000 g) < 1000000" by (rule random_below_less) simp
  have tkp: "profile_of (tiktok_guess ''khaby'' g) = JObj [
                (''username'', JStr ''khaby''),
                (''followers'', JNum (real (fst (random_below 1000000 g) + 1000))),
                (''likes'', JNum (real (fst (random_below 10000000 (snd (random_below 1000000 g))) + 10000))),
                (''simulated'', JBool True)]"
    by (simp add: tiktok_guess_def guess_json_props split: prod.splits)
  have tw: "twitter ''nasa'' (Inr example_twitter_page) g = twitter_guess ''nasa'' g"
    by (simp add: twitter_def twitter_try_def example_twitter_page_def Let_def)
  have g: "fst (random_below 10000 g) < 10000" by (rule random_below_less) simp
  have twp: "profile_of (twitter_guess ''nasa'' g) = JObj [
                (''username'', JStr ''nasa''),
                (''followers'', JNum (real (fst (random_below 10000 g)))),
                (''simulated'', JBool True)]"
    by (simp add: twitter_guess_def guess_json_props)
  have i0: "instagram_count ''Followers'' ''1.2M Followers'' = 0" by code_simp
  show ?thesis
    unfolding tk tw tkp twp using f g tiktok_example_matches(1,4) i0 by simp
qed

subsection \<open>The envelope\<close>

lemma artist_response_found: "found (artist_response u n g)"
  by (simp add: artist_response_def found_def exists_of_def profile_of_def Let_def
      split: prod.splits)

lemma user_response_found: "found (user_response u n g)"
  by (simp add: user_response_def found_def exists_of_def profile_of_def Let_def
      split: prod.splits)

lemma spotify_envelope: "status (spotify u g) = 200 \<and> envelope_kept (spotify u g)"
proof -
  consider
    (exact) "truthy (knownProfiles_at (normalize u))"
      "spotify u g = exact_match_response (normalize u)"
  | (close) "closeMatches (normalize u) \<noteq> []"
      "spotify u g = close_match_response u (closeMatches (normalize u) ! 0)"
  | (artist) "spotify u g = artist_response u (normalize u) g"
  | (user) "spotify u g = user_response u (normalize u) g"
  | (none) "spotify u g = not_found_omitted"
    using spotify_cases[of u g] by blast
  then show ?thesis
  proof cases
    case exact
    have "found (exact_match_response (normalize u))"
      using exact_not_simulated(1,3)[OF exact(1)]
      by (simp add: found_def) (simp add: exact_match_response_def Let_def)
    with envelope_found show ?thesis unfolding exact(2) by blast
  next
    case close
    have "found (close_match_response u (closeMatches (normalize u) ! 0))"
      using close_match_props(1,3)[OF closeMatches_first[OF close(1)], of u]
      by (simp add: found_def) (simp add: close_match_response_def Let_def)
    with envelope_found show ?thesis unfolding close(2) by blast
  next
    case artist
    with envelope_found[OF artist_response_found] show ?thesis by simp
  next
    case user
    with envelope_found[OF user_response_found] show ?thesis by simp
  next
    case none
    with envelope_omitted show ?thesis by simp
  qed
qed

text \<open>
  Claim C3, amended. Every answer of every endpoint is either the status 500 of the GitHub
  handler or has status 200 and keeps the envelope: with \<^verbatim>\<open>exists: true\<close> the profile is
  an object, never \<^verbatim>\<open>null\<close>; otherwise \<^verbatim>\<open>exists\<close> is \<^verbatim>\<open>false\<close> and the profile is
  \<^verbatim>\<open>null\<close> or the property is left out.
\<close>

theorem envelope_invariant:
  "handle env g req = github_server_error
   \<or> (status (handle env g req) = 200 \<and> envelope_kept (handle env g req))"
proof (cases req)
  case (GitHub u a b)
  with github_envelope[of a b] show ?thesis by simp
next
  case (Twitter u a)
  with twitter_envelope[of u a g] show ?thesis by simp
next
  case (Instagram u a)
  with instagram_envelope[of u a g] show ?thesis by simp
next
  case (LinkedIn u a)
  with linkedin_envelope[of u a g] show ?thesis by simp
next
  case (Reddit u a)
  with reddit_envelope[of env u a g] show ?thesis by simp
next
  case (TikTok u a)
  with tiktok_envelope[of u a g] show ?thesis by simp
next
  case (Spotify u)
  with spotify_envelope[of u g] show ?thesis by simp
qed

theorem envelope_invariant_witness:
  "handle example_builtins (const_rng half01) (Twitter ''ab'' (Inl (AxiosError None))) = not_found_null
   \<and> status (handle example_builtins (const_rng half01) (Twitter ''ab'' (Inl (AxiosError None)))) = 200
   \<and> envelope_kept (handle example_builtins (const_rng half01) (Twitter ''ab'' (Inl (AxiosError None))))
   \<and> has_profile (handle example_builtins (const_rng half01) (Twitter ''ab'' (Inl (AxiosError None))))"
proof -
  let ?r = "handle example_builtins (const_rng half01) (Twitter ''ab'' (Inl (AxiosError None)))"
  have "\<not> (toLowerCase ''ab'' \<in> set [''elonmusk'', ''google'', ''microsoft'', ''apple'', ''amazon'',
            ''netflix'', ''twitter'', ''facebook'', ''instagram'', ''tiktok'', ''billgates'']
          \<or> length ''ab'' > 3)"
    by code_simp
  then have "twitter_guess ''ab'' (const_rng half01) = not_found_null"
    unfolding twitter_guess_def Let_def by (rule guess_json_props(5))
  then have a: "?r = not_found_null"
    by (simp add: twitter_Inl)
  have b: "not_found_null \<noteq> github_server_error"
    by (simp add: not_found_null_def github_server_error_def res_json_def res_status_json_def)
  from envelope_invariant[of example_builtins "const_rng half01" "Twitter ''ab'' (Inl (AxiosError None))"]
  have "?r = github_server_error \<or> (status ?r = 200 \<and> envelope_kept ?r)" .
  with a b have "status ?r = 200 \<and> envelope_kept ?r"
    by (simp only: simp_thms)
  moreover have "has_profile ?r"
    unfolding a by (rule not_found_null_props(2))
  ultimately show ?thesis using a by (simp only: simp_thms)
qed

text \<open>
  The claim as stated asks for \<^verbatim>\<open>profile: null\<close> whenever \<^verbatim>\<open>exists\<close> is false. The answer of
  the GitHub handler to a 404 has \<^verbatim>\<open>exists: false\<close> and no property \<^verbatim>\<open>profile\<close>.
\<close>

theorem omitted_profile_counterexample:
  "exists_of (handle example_builtins (const_rng half01)
      (GitHub ''nasa'' (Inl (AxiosError (Some 404))) (Inl (AxiosError (Some 404))))) = JBool False
   \<and> \<not> has_profile (handle example_builtins (const_rng half01)
      (GitHub ''nasa'' (Inl (AxiosError (Some 404))) (Inl (AxiosError (Some 404)))))
   \<and> \<not> envelope_stated (handle example_builtins (const_rng half01)
      (GitHub ''nasa'' (Inl (AxiosError (Some 404))) (Inl (AxiosError (Some 404)))))"
  by (simp add: github_Inl envelope_stated_def not_found_omitted_props)

end
